theory Spec2Isabelle
  imports Main
begin

section \<open>Python values\<close>

text \<open>
  The handler of \<^verbatim>\<open>src/lambda/pii_processor.py\<close> receives an EventBridge event that the
  Lambda runtime has decoded from JSON: \<^verbatim>\<open>event: Dict[str, Any]\<close>. The values below are
  the Python values such a decoded document is made of. A dictionary is an association
  list in insertion order (Python dictionaries keep it, and the documents the program
  builds are serialised in that order); the keys of a decoded dictionary are distinct,
  and a lookup takes the first binding of a key. Numbers are integers: the program never
  computes with a number, it only tests its truth value.
\<close>

datatype json =
    JNull
  | JBool bool
  | JNum int
  | JStr string
  | JList "json list"
  | JObj "(string \<times> json) list"

type_synonym dict = "(string \<times> json) list"

text \<open>The exceptions the program can meet, each with what \<^verbatim>\<open>str(e)\<close> needs.\<close>

datatype exn =
    AttributeError string
  | TypeError string
  | KeyError string
  | ServiceError string

text \<open>
  \<^verbatim>\<open>str(e)\<close>: the message of the exception; a \<^verbatim>\<open>KeyError\<close> prints the missing key
  between quotes. \<open>ServiceError\<close> stands for whatever a boto3 client raises
  (\<^verbatim>\<open>ClientError\<close>, \<^verbatim>\<open>ParamValidationError\<close>, a connection error), with its message.
\<close>

definition quoted :: "string \<Rightarrow> string" where
  "quoted s = [CHR 0x27] @ s @ [CHR 0x27]"

fun str_exn :: "exn \<Rightarrow> string" where
  "str_exn (AttributeError m) = m"
| "str_exn (TypeError m) = m"
| "str_exn (KeyError k) = quoted k"
| "str_exn (ServiceError m) = m"

fun type_name :: "json \<Rightarrow> string" where
  "type_name JNull = ''NoneType''"
| "type_name (JBool b) = ''bool''"
| "type_name (JNum n) = ''int''"
| "type_name (JStr s) = ''str''"
| "type_name (JList xs) = ''list''"
| "type_name (JObj kvs) = ''dict''"

definition no_attribute :: "json \<Rightarrow> string \<Rightarrow> exn" where
  "no_attribute v attr =
     AttributeError (quoted (type_name v) @ '' object has no attribute '' @ quoted attr)"

text \<open>\<^verbatim>\<open>d.get(k, default)\<close> on a dictionary.\<close>

definition dict_get :: "dict \<Rightarrow> string \<Rightarrow> json \<Rightarrow> json" where
  "dict_get d k dflt = (case map_of d k of None \<Rightarrow> dflt | Some v \<Rightarrow> v)"

text \<open>
  \<^verbatim>\<open>v.get(k, default)\<close> on any value: only a dictionary has the method, every other
  value raises \<^verbatim>\<open>AttributeError\<close>.
\<close>

fun py_get :: "json \<Rightarrow> string \<Rightarrow> json \<Rightarrow> exn + json" where
  "py_get (JObj d) k dflt = Inr (dict_get d k dflt)"
| "py_get v k dflt = Inl (no_attribute v ''get'')"

text \<open>\<^verbatim>\<open>d[k]\<close> on a dictionary: \<^verbatim>\<open>KeyError\<close> when the key is missing.\<close>

definition dict_item :: "dict \<Rightarrow> string \<Rightarrow> exn + json" where
  "dict_item d k = (case map_of d k of None \<Rightarrow> Inl (KeyError k) | Some v \<Rightarrow> Inr v)"

text \<open>
  \<^verbatim>\<open>for x in v\<close>: a list yields its elements, a dictionary its keys, a string its
  characters; the other values are not iterable.
\<close>

fun py_iter :: "json \<Rightarrow> exn + json list" where
  "py_iter (JList xs) = Inr xs"
| "py_iter (JObj d) = Inr (map (\<lambda>kv. JStr (fst kv)) d)"
| "py_iter (JStr s) = Inr (map (\<lambda>c. JStr [c]) s)"
| "py_iter v = Inl (TypeError (quoted (type_name v) @ '' object is not iterable''))"

text \<open>The truth value of a value, as \<^verbatim>\<open>if v\<close> and \<^verbatim>\<open>v and w\<close> test it.\<close>

fun truthy :: "json \<Rightarrow> bool" where
  "truthy JNull = False"
| "truthy (JBool b) = b"
| "truthy (JNum n) = (n \<noteq> 0)"
| "truthy (JStr s) = (s \<noteq> [])"
| "truthy (JList xs) = (xs \<noteq> [])"
| "truthy (JObj d) = (d \<noteq> [])"

text \<open>
  \<^verbatim>\<open>s.replace(old, '')\<close>: every occurrence of \<open>old\<close>, found from the left without
  overlap, is removed. \<open>skip\<close> counts the characters of an occurrence still to drop.
\<close>

fun remove_all :: "string \<Rightarrow> nat \<Rightarrow> string \<Rightarrow> string" where
  "remove_all old skip [] = []"
| "remove_all old skip (c # cs) =
     (if 0 < skip then remove_all old (skip - 1) cs
      else if old \<noteq> [] \<and> take (length old) (c # cs) = old
        then remove_all old (length old - 1) cs
      else c # remove_all old 0 cs)"

definition str_remove :: "string \<Rightarrow> string \<Rightarrow> string" where
  "str_remove old s = remove_all old 0 s"

text \<open>\<^verbatim>\<open>config[key] = value\<close>: an existing key keeps its place, a new one goes last.\<close>

fun dict_set :: "('k \<times> 'v) list \<Rightarrow> 'k \<Rightarrow> 'v \<Rightarrow> ('k \<times> 'v) list" where
  "dict_set [] k v = [(k, v)]"
| "dict_set (p # ps) k v = (if fst p = k then (k, v) # ps else p # dict_set ps k v)"

section \<open>The services the program calls\<close>

text \<open>
  The program's effects are requests to AWS services, reads of the clock and log lines.
  The state of the model is the list of the effects so far, oldest first. What a service
  answers is not the program's: it is a parameter (\<open>env\<close>), a function of the history and
  of the request, so that every theorem holds for every behaviour of the services.
\<close>

text \<open>A \<^verbatim>\<open>datetime\<close>, by the two renderings the program takes of it.\<close>

record datetime =
  isoformat :: string
  strftime_ymd :: string

datatype level = INFO | WARNING | ERROR

text \<open>
  The arguments are those of the calls in the source, in the source's order:
  \<^item> \<open>GetParametersByPath Path Recursive WithDecryption\<close>;
  \<^item> \<open>CopyObject source_bucket source_key Bucket Key ServerSideEncryption Metadata
    MetadataDirective\<close>;
  \<^item> \<open>PutObjectAcl Bucket Key ACL\<close>;
  \<^item> \<open>PutObjectTagging Bucket Key TagSet\<close>;
  \<^item> \<open>PutEvents Source DetailType Detail Time\<close>.
  A bucket and the key of the original object are whatever the event held (any value);
  the quarantine key is a string the program builds.
\<close>

datatype call =
    Log level string
  | UtcNow
  | GetParametersByPath string bool bool
  | CopyObject json json json string string "(string \<times> json) list" string
  | PutObjectAcl json string string
  | PutObjectTagging json json "(string \<times> string) list"
  | PutEvents string string string datetime

type_synonym world = "call list"

type_synonym config = "(string \<times> string) list"

text \<open>
  \<^item> \<open>fault\<close>: the exception a request raises, if it does, given the history;
  \<^item> \<open>parameters\<close>: the \<^verbatim>\<open>Parameters\<close> of the answer of the parameter store
    (\<^verbatim>\<open>Name\<close>, \<^verbatim>\<open>Value\<close>) when the request does not raise;
  \<^item> \<open>clock\<close>: what \<^verbatim>\<open>datetime.utcnow()\<close> returns, given the history;
  \<^item> \<open>environ\<close>: \<^verbatim>\<open>os.environ\<close>;
  \<^item> \<open>json_dumps\<close>: \<^verbatim>\<open>json.dumps\<close>, total on the values above;
  \<^item> \<open>py_repr\<close>: \<^verbatim>\<open>str(v)\<close> for a value that is not a string;
  \<^item> \<open>str_lower\<close>: \<^verbatim>\<open>str.lower()\<close>, Python's lowering of every cased character.
  The last three are Python's own: the program is verified for whatever they compute.
\<close>

record env =
  fault :: "world \<Rightarrow> call \<Rightarrow> exn option"
  parameters :: "world \<Rightarrow> call \<Rightarrow> (string \<times> string) list"
  clock :: "world \<Rightarrow> datetime"
  environ :: "string \<Rightarrow> string option"
  json_dumps :: "json \<Rightarrow> string"
  py_repr :: "json \<Rightarrow> string"
  str_lower :: "string \<Rightarrow> string"

text \<open>A value inside an f-string: a string is itself, another value is \<^verbatim>\<open>str(v)\<close>.\<close>

definition fstr :: "env \<Rightarrow> json \<Rightarrow> string" where
  "fstr env v = (case v of JStr s \<Rightarrow> s | _ \<Rightarrow> py_repr env v)"

text \<open>\<^verbatim>\<open>severity.lower()\<close>: only a string has the method.\<close>

fun py_lower :: "env \<Rightarrow> json \<Rightarrow> exn + string" where
  "py_lower env (JStr s) = Inr (str_lower env s)"
| "py_lower env v = Inl (no_attribute v ''lower'')"

definition log :: "level \<Rightarrow> string \<Rightarrow> world \<Rightarrow> world" where
  "log lvl msg w = w @ [Log lvl msg]"

text \<open>A request to a service: it is recorded, and raises or not.\<close>

definition request :: "env \<Rightarrow> call \<Rightarrow> world \<Rightarrow> exn option \<times> world" where
  "request env c w = (fault env w c, w @ [c])"

definition utcnow :: "env \<Rightarrow> world \<Rightarrow> datetime \<times> world" where
  "utcnow env w = (clock env w, w @ [UtcNow])"

section \<open>The program\<close>

subsection \<open>\<^verbatim>\<open>get_configuration\<close> (lines 62 to 91)\<close>

text \<open>
  The loop over \<^verbatim>\<open>response['Parameters']\<close>: the prefix is removed from each name and
  the value stored under what is left.
\<close>

fun load_parameters :: "string \<Rightarrow> (string \<times> string) list \<Rightarrow> config \<Rightarrow> config" where
  "load_parameters old [] config = config"
| "load_parameters old (param # params) config =
     load_parameters old params (dict_set config (str_remove old (fst param)) (snd param))"

text \<open>
  The request is inside the \<^verbatim>\<open>try\<close>; the handler logs and re-raises (\<^verbatim>\<open>raise\<close>), so
  an exception of the parameter store is the result \<open>Inl\<close>.
\<close>

definition get_configuration :: "env \<Rightarrow> world \<Rightarrow> (exn + config) \<times> world" where
  "get_configuration env w =
     (let project_name =
            (case environ env ''PROJECT_NAME'' of
               None \<Rightarrow> ''media-processing-pipeline'' | Some v \<Rightarrow> v);
          environment = (case environ env ''ENVIRONMENT'' of None \<Rightarrow> ''dev'' | Some v \<Rightarrow> v);
          parameter_prefix = ''/'' @ project_name @ ''/'' @ environment;
          req = GetParametersByPath parameter_prefix True True
      in (case request env req w of
            (Some e, w1) \<Rightarrow>
              (Inl e, log ERROR (''Failed to retrieve configuration: '' @ str_exn e) w1)
          | (None, w1) \<Rightarrow>
              (let config = load_parameters (parameter_prefix @ ''/'') (parameters env w req) []
               in (Inr config,
                   log INFO (''Retrieved '' @ fstr env (JNum (int (length config)))
                             @ '' configuration parameters'') w1))))"

subsection \<open>\<^verbatim>\<open>quarantine_object\<close> (lines 187 to 240)\<close>

definition quarantine_prefix :: string where
  "quarantine_prefix = ''quarantine/''"

text \<open>
  The whole body is in a \<^verbatim>\<open>try\<close> whose handler returns the failed result. The clock
  is read while the arguments of \<^verbatim>\<open>copy_object\<close> are built, before the request; the
  second request is made only when the first did not raise. \<open>config\<close> is not read.
\<close>

definition quarantine_object ::
    "env \<Rightarrow> json \<Rightarrow> json \<Rightarrow> config \<Rightarrow> world \<Rightarrow> (exn + json) \<times> world" where
  "quarantine_object env bucket_name object_key config w =
     (let quarantine_key = quarantine_prefix @ fstr env object_key;
          (now, w1) = utcnow env w;
          (raised, w4) =
            (case request env
                    (CopyObject bucket_name object_key bucket_name quarantine_key ''AES256''
                       [(''quarantine-reason'', JStr ''PII-detected''),
                        (''quarantine-timestamp'', JStr (isoformat now)),
                        (''original-key'', object_key)]
                       ''REPLACE'') w1 of
               (Some e, w2) \<Rightarrow> (Some e, w2)
             | (None, w2) \<Rightarrow>
                 (case request env (PutObjectAcl bucket_name quarantine_key ''private'') w2 of
                    (Some e, w3) \<Rightarrow> (Some e, w3)
                  | (None, w3) \<Rightarrow>
                      (None,
                       log INFO (''Quarantined object: '' @ fstr env bucket_name @ ''/''
                                 @ fstr env object_key @ '' -> '' @ fstr env bucket_name
                                 @ ''/'' @ quarantine_key) w3)))
      in (case raised of
            None \<Rightarrow>
              (Inr (JObj [(''action'', JStr ''quarantine''),
                          (''status'', JStr ''success''),
                          (''quarantine_location'',
                             JStr (fstr env bucket_name @ ''/'' @ quarantine_key))]),
               w4)
          | Some e \<Rightarrow>
              (Inr (JObj [(''action'', JStr ''quarantine''),
                          (''status'', JStr ''failed''),
                          (''error'', JStr (str_exn e))]),
               log ERROR (''Failed to quarantine object '' @ fstr env bucket_name @ ''/''
                          @ fstr env object_key @ '': '' @ str_exn e) w4)))"

subsection \<open>\<^verbatim>\<open>tag_object_with_pii_info\<close> (lines 242 to 285)\<close>

text \<open>
  The whole body is in a \<^verbatim>\<open>try\<close> whose handler returns the failed result. The
  dictionary \<^verbatim>\<open>tags\<close> is built in the order written: \<^verbatim>\<open>severity.lower()\<close> first (it
  raises when the severity is not a string), then the clock.
\<close>

definition tag_object_with_pii_info ::
    "env \<Rightarrow> json \<Rightarrow> json \<Rightarrow> json \<Rightarrow> world \<Rightarrow> (exn + json) \<times> world" where
  "tag_object_with_pii_info env bucket_name object_key severity w =
     (let (outcome, w3) =
            (case py_lower env severity of
               Inl e \<Rightarrow> (Inl e, w)
             | Inr lowered \<Rightarrow>
                 (let (now, w1) = utcnow env w;
                      tags = [(''pii-detected'', ''true''),
                              (''pii-severity'', lowered),
                              (''pii-detection-date'', strftime_ymd now),
                              (''security-status'', ''flagged'')]
                  in (case request env (PutObjectTagging bucket_name object_key tags) w1 of
                        (Some e, w2) \<Rightarrow> (Inl e, w2)
                      | (None, w2) \<Rightarrow>
                          (Inr tags,
                           log INFO (''Tagged object '' @ fstr env bucket_name @ ''/''
                                     @ fstr env object_key @ '' with PII information'') w2))))
      in (case outcome of
            Inr tags \<Rightarrow>
              (Inr (JObj [(''action'', JStr ''tag''),
                          (''status'', JStr ''success''),
                          (''tags_applied'', JObj (map (\<lambda>kv. (fst kv, JStr (snd kv))) tags))]),
               w3)
          | Inl e \<Rightarrow>
              (Inr (JObj [(''action'', JStr ''tag''),
                          (''status'', JStr ''failed''),
                          (''error'', JStr (str_exn e))]),
               log ERROR (''Failed to tag object '' @ fstr env bucket_name @ ''/''
                          @ fstr env object_key @ '': '' @ str_exn e) w3)))"

subsection \<open>\<^verbatim>\<open>handle_pii_in_s3_object\<close> (lines 143 to 185)\<close>

text \<open>\<^verbatim>\<open>severity in ['HIGH', 'CRITICAL']\<close>: equality with one of the two strings.\<close>

definition high_or_critical :: "json \<Rightarrow> bool" where
  "high_or_critical severity = (severity = JStr ''HIGH'' \<or> severity = JStr ''CRITICAL'')"

text \<open>
  The \<^verbatim>\<open>try\<close> block appends to \<^verbatim>\<open>action_result['actions']\<close> as it goes, so the handler
  sees what was appended before the exception: the block yields the exception (if any),
  the list so far and the state. The handler adds the key \<^verbatim>\<open>error\<close>.
\<close>

definition handle_pii_in_s3_object ::
    "env \<Rightarrow> json \<Rightarrow> json \<Rightarrow> json \<Rightarrow> config \<Rightarrow> world \<Rightarrow> (exn + json) \<times> world" where
  "handle_pii_in_s3_object env bucket_name object_key severity config w =
     (let (raised, actions, w3) =
            (case (if high_or_critical severity
                   then (case quarantine_object env bucket_name object_key config w of
                           (Inl e, w1) \<Rightarrow> (Some e, [], w1)
                         | (Inr quarantine_result, w1) \<Rightarrow> (None, [quarantine_result], w1))
                   else (None, [], w)) of
               (Some e, actions, w1) \<Rightarrow> (Some e, actions, w1)
             | (None, actions, w1) \<Rightarrow>
                 (case tag_object_with_pii_info env bucket_name object_key severity w1 of
                    (Inl e, w2) \<Rightarrow> (Some e, actions, w2)
                  | (Inr tag_result, w2) \<Rightarrow>
                      (None, actions @ [tag_result],
                       log INFO (''Handled PII in '' @ fstr env bucket_name @ ''/''
                                 @ fstr env object_key @ '' with severity ''
                                 @ fstr env severity) w2)))
      in (case raised of
            None \<Rightarrow>
              (Inr (JObj [(''bucket'', bucket_name), (''key'', object_key),
                          (''severity'', severity), (''actions'', JList actions)]),
               w3)
          | Some e \<Rightarrow>
              (Inr (JObj [(''bucket'', bucket_name), (''key'', object_key),
                          (''severity'', severity), (''actions'', JList actions),
                          (''error'', JStr (str_exn e))]),
               log ERROR (''Error handling PII in '' @ fstr env bucket_name @ ''/''
                          @ fstr env object_key @ '': '' @ str_exn e) w3)))"

subsection \<open>\<^verbatim>\<open>send_high_severity_alert\<close> (lines 287 to 320)\<close>

text \<open>
  The \<^verbatim>\<open>try\<close> block: the five subscripts of \<^verbatim>\<open>result\<close> (each a \<^verbatim>\<open>KeyError\<close> when the
  key is missing), the serialisation, the clock, the request, the log line with one more
  subscript.
\<close>

definition alert_attempt :: "env \<Rightarrow> dict \<Rightarrow> world \<Rightarrow> exn option \<times> world" where
  "alert_attempt env result w =
     (case dict_item result ''finding_id'' of Inl e \<Rightarrow> (Some e, w) | Inr finding_id \<Rightarrow>
     (case dict_item result ''severity'' of Inl e \<Rightarrow> (Some e, w) | Inr severity \<Rightarrow>
     (case dict_item result ''type'' of Inl e \<Rightarrow> (Some e, w) | Inr finding_type \<Rightarrow>
     (case dict_item result ''actions_taken'' of Inl e \<Rightarrow> (Some e, w) | Inr actions_taken \<Rightarrow>
     (case dict_item result ''timestamp'' of Inl e \<Rightarrow> (Some e, w) | Inr timestamp \<Rightarrow>
       (let event_detail = [(''finding_id'', finding_id), (''severity'', severity),
                            (''type'', finding_type), (''actions_taken'', actions_taken),
                            (''alert_level'', JStr ''HIGH''), (''timestamp'', timestamp)];
            detail = json_dumps env (JObj event_detail);
            (now, w1) = utcnow env w
        in (case request env
                    (PutEvents ''media-processing-pipeline.security''
                       ''High Severity PII Detection'' detail now) w1 of
              (Some e, w2) \<Rightarrow> (Some e, w2)
            | (None, w2) \<Rightarrow>
                (case dict_item result ''finding_id'' of
                   Inl e \<Rightarrow> (Some e, w2)
                 | Inr fid \<Rightarrow>
                     (None,
                      log INFO (''Sent high severity alert for finding '' @ fstr env fid)
                        w2)))))))))"

text \<open>
  The handler (\<^verbatim>\<open>except Exception as e\<close>) logs and falls through: the procedure
  returns \<^verbatim>\<open>None\<close>. \<open>config\<close> is not read.
\<close>

definition send_high_severity_alert ::
    "env \<Rightarrow> dict \<Rightarrow> config \<Rightarrow> world \<Rightarrow> (exn + unit) \<times> world" where
  "send_high_severity_alert env result config w =
     (case alert_attempt env result w of
        (None, w1) \<Rightarrow> (Inr (), w1)
      | (Some e, w1) \<Rightarrow>
          (Inr (), log ERROR (''Failed to send high severity alert: '' @ str_exn e) w1))"

subsection \<open>\<^verbatim>\<open>process_macie_finding\<close> (lines 93 to 141)\<close>

text \<open>Line 106: \<^verbatim>\<open>detail.get('severity', {}).get('description', 'UNKNOWN')\<close>.\<close>

definition finding_severity :: "json \<Rightarrow> exn + json" where
  "finding_severity detail =
     (case py_get detail ''severity'' (JObj []) of
        Inl e \<Rightarrow> Inl e
      | Inr s \<Rightarrow> py_get s ''description'' (JStr ''UNKNOWN''))"

text \<open>
  The loop of lines 122 to 135 over the resources, with \<^verbatim>\<open>result['actions_taken']\<close> as
  the accumulator. Nothing in the loop is inside a \<^verbatim>\<open>try\<close>: an exception ends it.
\<close>

fun remediate_resources ::
    "env \<Rightarrow> json list \<Rightarrow> json \<Rightarrow> config \<Rightarrow> json list \<Rightarrow> world \<Rightarrow> (exn + json list) \<times> world"
where
  "remediate_resources env [] severity config actions_taken w = (Inr actions_taken, w)"
| "remediate_resources env (resource # rest) severity config actions_taken w =
     (case py_get resource ''resourceType'' JNull of
        Inl e \<Rightarrow> (Inl e, w)
      | Inr resource_type \<Rightarrow>
          (if resource_type = JStr ''S3Object'' then
             (case py_get resource ''s3Object'' (JObj []) of
                Inl e \<Rightarrow> (Inl e, w)
              | Inr s3_resource \<Rightarrow>
                  (case py_get s3_resource ''bucketName'' JNull of
                     Inl e \<Rightarrow> (Inl e, w)
                   | Inr bucket_name \<Rightarrow>
                       (case py_get s3_resource ''key'' JNull of
                          Inl e \<Rightarrow> (Inl e, w)
                        | Inr object_key \<Rightarrow>
                            (if truthy bucket_name \<and> truthy object_key then
                               (case handle_pii_in_s3_object env bucket_name object_key
                                       severity config w of
                                  (Inl e, w1) \<Rightarrow> (Inl e, w1)
                                | (Inr action_result, w1) \<Rightarrow>
                                    remediate_resources env rest severity config
                                      (actions_taken @ [action_result]) w1)
                             else remediate_resources env rest severity config
                                    actions_taken w))))
           else remediate_resources env rest severity config actions_taken w))"

definition process_macie_finding ::
    "env \<Rightarrow> dict \<Rightarrow> config \<Rightarrow> world \<Rightarrow> (exn + dict) \<times> world" where
  "process_macie_finding env event config w =
     (let detail = dict_get event ''detail'' (JObj []) in
      (case py_get detail ''id'' JNull of Inl e \<Rightarrow> (Inl e, w) | Inr finding_id \<Rightarrow>
      (case finding_severity detail of Inl e \<Rightarrow> (Inl e, w) | Inr severity \<Rightarrow>
      (case py_get detail ''type'' JNull of Inl e \<Rightarrow> (Inl e, w) | Inr finding_type \<Rightarrow>
        (let w1 = log INFO (''Processing Macie finding '' @ fstr env finding_id
                            @ '' with severity '' @ fstr env severity) w
         in (case py_get detail ''resources'' (JList []) of
               Inl e \<Rightarrow> (Inl e, w1)
             | Inr affected_resources \<Rightarrow>
                 (let (now, w2) = utcnow env w1 in
                  (case py_iter affected_resources of
                     Inl e \<Rightarrow> (Inl e, w2)
                   | Inr resources \<Rightarrow>
                       (case remediate_resources env resources severity config [] w2 of
                          (Inl e, w3) \<Rightarrow> (Inl e, w3)
                        | (Inr actions_taken, w3) \<Rightarrow>
                            (let result = [(''finding_id'', finding_id),
                                           (''severity'', severity),
                                           (''type'', finding_type),
                                           (''actions_taken'', JList actions_taken),
                                           (''timestamp'', JStr (isoformat now))]
                             in (if high_or_critical severity then
                                   (case send_high_severity_alert env result config w3 of
                                      (Inl e, w4) \<Rightarrow> (Inl e, w4)
                                    | (Inr u, w4) \<Rightarrow> (Inr result, w4))
                                 else (Inr result, w3))))))))))))"

subsection \<open>\<^verbatim>\<open>lambda_handler\<close> (lines 18 to 60)\<close>

record response =
  statusCode :: int
  body :: string

text \<open>
  The \<^verbatim>\<open>try\<close> block up to the value of \<^verbatim>\<open>result\<close>: the entry log line, the
  configuration, then the test of the source. The invocation context is not read.
\<close>

definition handle_event :: "env \<Rightarrow> dict \<Rightarrow> world \<Rightarrow> (exn + json) \<times> world" where
  "handle_event env event w =
     (let w0 = log INFO (''Received event: '' @ json_dumps env (JObj event)) w in
      (case get_configuration env w0 of
         (Inl e, w1) \<Rightarrow> (Inl e, w1)
       | (Inr config, w1) \<Rightarrow>
           (if dict_get event ''source'' JNull = JStr ''aws.macie2'' then
              (case process_macie_finding env event config w1 of
                 (Inl e, w2) \<Rightarrow> (Inl e, w2)
               | (Inr result, w2) \<Rightarrow> (Inr (JObj result), w2))
            else
              (Inr (JObj [(''processed'', JBool False),
                          (''reason'', JStr ''Unknown event source'')]),
               log WARNING (''Unexpected event source: ''
                            @ fstr env (dict_get event ''source'' JNull)) w1))))"

definition lambda_handler :: "env \<Rightarrow> dict \<Rightarrow> world \<Rightarrow> response \<times> world" where
  "lambda_handler env event w =
     (case handle_event env event w of
        (Inr result, w1) \<Rightarrow>
          (let (now, w2) = utcnow env w1 in
           (\<lparr>statusCode = 200,
             body = json_dumps env
                      (JObj [(''message'', JStr ''Event processed successfully''),
                             (''result'', result),
                             (''timestamp'', JStr (isoformat now))])\<rparr>,
            w2))
      | (Inl e, w1) \<Rightarrow>
          (let w2 = log ERROR (''Error processing event: '' @ str_exn e) w1;
               (now, w3) = utcnow env w2 in
           (\<lparr>statusCode = 500,
             body = json_dumps env
                      (JObj [(''error'', JStr ''Event processing failed''),
                             (''message'', JStr (str_exn e)),
                             (''timestamp'', JStr (isoformat now))])\<rparr>,
            w3)))"

section \<open>Vocabulary of the properties\<close>

text \<open>A field of a result dictionary (\<open>JNull\<close> when there is none).\<close>

fun field :: "json \<Rightarrow> string \<Rightarrow> json" where
  "field (JObj d) k = dict_get d k JNull"
| "field v k = JNull"

fun is_dict :: "json \<Rightarrow> bool" where
  "is_dict (JObj d) = True"
| "is_dict v = False"

text \<open>The requests to the event bus (the alert) and to the object store.\<close>

fun is_put_events :: "call \<Rightarrow> bool" where
  "is_put_events (PutEvents src dt detail t) = True"
| "is_put_events c = False"

fun is_s3_request :: "call \<Rightarrow> bool" where
  "is_s3_request (CopyObject sb sk b k sse md d) = True"
| "is_s3_request (PutObjectAcl b k acl) = True"
| "is_s3_request (PutObjectTagging b k tags) = True"
| "is_s3_request c = False"

text \<open>
  The object (bucket and key) a request creates or changes, if any. Reading an object
  as the source of a copy does not change it. The program has no other request to the
  object store: it never deletes and never moves.
\<close>

fun written_object :: "call \<Rightarrow> (json \<times> json) option" where
  "written_object (CopyObject sb sk b k sse md d) = Some (b, JStr k)"
| "written_object (PutObjectAcl b k acl) = Some (b, JStr k)"
| "written_object (PutObjectTagging b k tags) = Some (b, k)"
| "written_object c = None"

text \<open>The two requests of a quarantine and the tag set of lines 255 to 260.\<close>

definition copy_request :: "env \<Rightarrow> json \<Rightarrow> json \<Rightarrow> datetime \<Rightarrow> call" where
  "copy_request env bucket_name object_key now =
     CopyObject bucket_name object_key bucket_name (''quarantine/'' @ fstr env object_key)
       ''AES256''
       [(''quarantine-reason'', JStr ''PII-detected''),
        (''quarantine-timestamp'', JStr (isoformat now)),
        (''original-key'', object_key)]
       ''REPLACE''"

definition acl_request :: "env \<Rightarrow> json \<Rightarrow> json \<Rightarrow> call" where
  "acl_request env bucket_name object_key =
     PutObjectAcl bucket_name (''quarantine/'' @ fstr env object_key) ''private''"

definition pii_tags :: "env \<Rightarrow> string \<Rightarrow> datetime \<Rightarrow> (string \<times> string) list" where
  "pii_tags env severity now =
     [(''pii-detected'', ''true''), (''pii-severity'', str_lower env severity),
      (''pii-detection-date'', strftime_ymd now), (''security-status'', ''flagged'')]"

definition quarantine_failed :: "exn \<Rightarrow> json" where
  "quarantine_failed e =
     JObj [(''action'', JStr ''quarantine''), (''status'', JStr ''failed''),
           (''error'', JStr (str_exn e))]"

definition quarantine_succeeded :: "string \<Rightarrow> json" where
  "quarantine_succeeded location =
     JObj [(''action'', JStr ''quarantine''), (''status'', JStr ''success''),
           (''quarantine_location'', JStr location)]"

definition tag_failed :: "exn \<Rightarrow> json" where
  "tag_failed e =
     JObj [(''action'', JStr ''tag''), (''status'', JStr ''failed''),
           (''error'', JStr (str_exn e))]"

definition tag_succeeded :: "(string \<times> string) list \<Rightarrow> json" where
  "tag_succeeded tags =
     JObj [(''action'', JStr ''tag''), (''status'', JStr ''success''),
           (''tags_applied'', JObj (map (\<lambda>kv. (fst kv, JStr (snd kv))) tags))]"

text \<open>
  What the tagging attempt raises in the history \<open>w\<close>, if anything: the missing method
  of a severity that is not a string, or the exception of the request.
\<close>

definition tagging_fault :: "env \<Rightarrow> json \<Rightarrow> json \<Rightarrow> json \<Rightarrow> world \<Rightarrow> exn option" where
  "tagging_fault env bucket_name object_key severity w =
     (case severity of
        JStr s \<Rightarrow>
          fault env (w @ [UtcNow]) (PutObjectTagging bucket_name object_key (pii_tags env s (clock env w)))
      | _ \<Rightarrow> Some (no_attribute severity ''lower''))"

text \<open>
  What the quarantine raises in the history \<open>w\<close>, if anything: the exception of the
  copy, or else that of the ACL.
\<close>

definition quarantine_fault :: "env \<Rightarrow> json \<Rightarrow> json \<Rightarrow> world \<Rightarrow> exn option" where
  "quarantine_fault env bucket_name object_key w =
     (case fault env (w @ [UtcNow]) (copy_request env bucket_name object_key (clock env w)) of
        Some e \<Rightarrow> Some e
      | None \<Rightarrow>
          fault env (w @ [UtcNow, copy_request env bucket_name object_key (clock env w)])
            (acl_request env bucket_name object_key))"

text \<open>
  The ActionResult of each action in the history \<open>w\<close>: the failed result with the
  message of what the action raised, or the success result.
\<close>

definition quarantine_result :: "env \<Rightarrow> json \<Rightarrow> json \<Rightarrow> world \<Rightarrow> json" where
  "quarantine_result env bucket_name object_key w =
     (case quarantine_fault env bucket_name object_key w of
        Some e \<Rightarrow> quarantine_failed e
      | None \<Rightarrow>
          quarantine_succeeded (fstr env bucket_name @ ''/quarantine/'' @ fstr env object_key))"

definition tag_result :: "env \<Rightarrow> json \<Rightarrow> json \<Rightarrow> json \<Rightarrow> world \<Rightarrow> json" where
  "tag_result env bucket_name object_key severity w =
     (case tagging_fault env bucket_name object_key severity w of
        Some e \<Rightarrow> tag_failed e
      | None \<Rightarrow>
          tag_succeeded (case severity of JStr s \<Rightarrow> pii_tags env s (clock env w) | _ \<Rightarrow> []))"

text \<open>The exceptions of a payload that has not the shape.\<close>

fun shape_error :: "exn \<Rightarrow> bool" where
  "shape_error (AttributeError m) = True"
| "shape_error (TypeError m) = True"
| "shape_error e = False"

text \<open>The per-resource outcome, by its list of actions.\<close>

definition outcome :: "json \<Rightarrow> json \<Rightarrow> json \<Rightarrow> json list \<Rightarrow> json" where
  "outcome bucket_name object_key severity actions =
     JObj [(''bucket'', bucket_name), (''key'', object_key), (''severity'', severity),
           (''actions'', JList actions)]"

text \<open>The request of the alert, from the fields of the result it is given.\<close>

definition alert_request :: "env \<Rightarrow> dict \<Rightarrow> datetime \<Rightarrow> call" where
  "alert_request env result now =
     PutEvents ''media-processing-pipeline.security'' ''High Severity PII Detection''
       (json_dumps env
          (JObj [(''finding_id'', dict_get result ''finding_id'' JNull),
                 (''severity'', dict_get result ''severity'' JNull),
                 (''type'', dict_get result ''type'' JNull),
                 (''actions_taken'', dict_get result ''actions_taken'' JNull),
                 (''alert_level'', JStr ''HIGH''),
                 (''timestamp'', dict_get result ''timestamp'' JNull)]))
       now"

text \<open>The log line that ends the alert: sent, or failed with the exception of the bus.\<close>

definition alert_log :: "env \<Rightarrow> dict \<Rightarrow> world \<Rightarrow> call" where
  "alert_log env result w =
     (case fault env (w @ [UtcNow]) (alert_request env result (clock env w)) of
        None \<Rightarrow>
          Log INFO (''Sent high severity alert for finding ''
                    @ fstr env (dict_get result ''finding_id'' JNull))
      | Some e \<Rightarrow> Log ERROR (''Failed to send high severity alert: '' @ str_exn e))"

text \<open>The result dictionary of \<^verbatim>\<open>process_macie_finding\<close> (lines 114 to 120).\<close>

definition finding_result :: "json \<Rightarrow> json \<Rightarrow> json \<Rightarrow> json list \<Rightarrow> datetime \<Rightarrow> dict" where
  "finding_result finding_id severity finding_type actions_taken now =
     [(''finding_id'', finding_id), (''severity'', severity), (''type'', finding_type),
      (''actions_taken'', JList actions_taken), (''timestamp'', JStr (isoformat now))]"

definition processing_log :: "env \<Rightarrow> json \<Rightarrow> json \<Rightarrow> call" where
  "processing_log env finding_id severity =
     Log INFO (''Processing Macie finding '' @ fstr env finding_id @ '' with severity ''
               @ fstr env severity)"

text \<open>The request of the configuration (lines 69 to 79) and the entry log line.\<close>

definition parameter_prefix :: "env \<Rightarrow> string" where
  "parameter_prefix env =
     ''/'' @ (case environ env ''PROJECT_NAME'' of
                None \<Rightarrow> ''media-processing-pipeline'' | Some v \<Rightarrow> v)
     @ ''/'' @ (case environ env ''ENVIRONMENT'' of None \<Rightarrow> ''dev'' | Some v \<Rightarrow> v)"

definition config_request :: "env \<Rightarrow> call" where
  "config_request env = GetParametersByPath (parameter_prefix env) True True"

definition entry_log :: "env \<Rightarrow> dict \<Rightarrow> call" where
  "entry_log env event = Log INFO (''Received event: '' @ json_dumps env (JObj event))"

text \<open>The two response envelopes and the result for an event of another source.\<close>

definition success_response :: "env \<Rightarrow> json \<Rightarrow> datetime \<Rightarrow> response" where
  "success_response env result now =
     \<lparr>statusCode = 200,
      body = json_dumps env
               (JObj [(''message'', JStr ''Event processed successfully''),
                      (''result'', result),
                      (''timestamp'', JStr (isoformat now))])\<rparr>"

definition failure_response :: "env \<Rightarrow> exn \<Rightarrow> datetime \<Rightarrow> response" where
  "failure_response env e now =
     \<lparr>statusCode = 500,
      body = json_dumps env
               (JObj [(''error'', JStr ''Event processing failed''),
                      (''message'', JStr (str_exn e)),
                      (''timestamp'', JStr (isoformat now))])\<rparr>"

definition unknown_source :: json where
  "unknown_source =
     JObj [(''processed'', JBool False), (''reason'', JStr ''Unknown event source'')]"

text \<open>
  The shape of a payload on which \<^verbatim>\<open>process_macie_finding\<close> meets no missing method:
  \<^verbatim>\<open>detail\<close> and \<^verbatim>\<open>detail.severity\<close> are dictionaries (or absent),
  \<^verbatim>\<open>detail.resources\<close> is iterable (or absent), each resource is a dictionary, and the
  \<^verbatim>\<open>s3Object\<close> of a resource of type \<^verbatim>\<open>S3Object\<close> is a dictionary (or absent).
\<close>

definition resource_shaped :: "json \<Rightarrow> bool" where
  "resource_shaped resource =
     (case resource of
        JObj d \<Rightarrow>
          (if dict_get d ''resourceType'' JNull = JStr ''S3Object''
           then is_dict (dict_get d ''s3Object'' (JObj [])) else True)
      | _ \<Rightarrow> False)"

definition well_shaped :: "dict \<Rightarrow> bool" where
  "well_shaped event =
     (case dict_get event ''detail'' (JObj []) of
        JObj detail \<Rightarrow>
          is_dict (dict_get detail ''severity'' (JObj [])) \<and>
          (case py_iter (dict_get detail ''resources'' (JList [])) of
             Inl e \<Rightarrow> False
           | Inr resources \<Rightarrow> list_all resource_shaped resources)
      | _ \<Rightarrow> False)"

text \<open>
  The test of lines 123 to 128 on one resource: the bucket and the key the remediation
  is called with, or \<open>None\<close> when the resource is skipped.
\<close>

definition actionable :: "json \<Rightarrow> (json \<times> json) option" where
  "actionable resource =
     (if field resource ''resourceType'' = JStr ''S3Object''
        \<and> truthy (field (field resource ''s3Object'') ''bucketName'')
        \<and> truthy (field (field resource ''s3Object'') ''key'')
      then Some (field (field resource ''s3Object'') ''bucketName'',
                 field (field resource ''s3Object'') ''key'')
      else None)"

text \<open>The object a per-resource outcome is about.\<close>

definition outcome_target :: "json \<Rightarrow> json \<times> json" where
  "outcome_target action_result = (field action_result ''bucket'', field action_result ''key'')"

text \<open>The resources of an event, as the loop meets them (none when not iterable).\<close>

definition event_resources :: "dict \<Rightarrow> json list" where
  "event_resources event =
     (case py_iter (dict_get (case dict_get event ''detail'' (JObj []) of JObj d \<Rightarrow> d | _ \<Rightarrow> [])
                      ''resources'' (JList [])) of
        Inl e \<Rightarrow> []
      | Inr resources \<Rightarrow> resources)"

text \<open>An environment that differs only in what the event bus answers.\<close>

definition bus_answers :: "(world \<Rightarrow> call \<Rightarrow> exn option) \<Rightarrow> env \<Rightarrow> env" where
  "bus_answers f env =
     env\<lparr>fault := (\<lambda>w c. if is_put_events c then f w c else fault env w c)\<rparr>"

section \<open>Sample environments and events\<close>

text \<open>
  The lowering of the ASCII letters, which is what \<^verbatim>\<open>str.lower()\<close> does on the
  severities of the samples.
\<close>

definition char_lower :: "char \<Rightarrow> char" where
  "char_lower c =
     (case map_of (zip ''ABCDEFGHIJKLMNOPQRSTUVWXYZ'' ''abcdefghijklmnopqrstuvwxyz'') c of
        None \<Rightarrow> c | Some l \<Rightarrow> l)"

definition ascii_lower :: "string \<Rightarrow> string" where
  "ascii_lower s = map char_lower s"

text \<open>
  An environment in which the requests selected by \<open>failing\<close> raise and the others
  succeed; the clock stands still and the two renderings are placeholders.
\<close>

definition sample_env :: "(call \<Rightarrow> bool) \<Rightarrow> env" where
  "sample_env failing =
     \<lparr>fault = (\<lambda>w c. if failing c then Some (ServiceError ''AccessDenied'') else None),
      parameters = (\<lambda>w c. [(''/media-processing-pipeline/dev/alerts/topic'', ''pii'')]),
      clock = (\<lambda>w. \<lparr>isoformat = ''2024-05-01T10:00:00'', strftime_ymd = ''2024-05-01''\<rparr>),
      environ = (\<lambda>k. None),
      json_dumps = (\<lambda>v. ''<json>''),
      py_repr = (\<lambda>v. ''<repr>''),
      str_lower = ascii_lower\<rparr>"

definition calm :: env where
  "calm = sample_env (\<lambda>c. False)"

fun is_get_parameters :: "call \<Rightarrow> bool" where
  "is_get_parameters (GetParametersByPath p r d) = True"
| "is_get_parameters c = False"

fun is_copy_object :: "call \<Rightarrow> bool" where
  "is_copy_object (CopyObject sb sk b k sse md d) = True"
| "is_copy_object c = False"

definition store_unreachable :: env where
  "store_unreachable = sample_env is_get_parameters"

definition copy_denied :: env where
  "copy_denied = sample_env is_copy_object"

definition bus_down :: env where
  "bus_down = sample_env is_put_events"

definition media_resource :: "string \<Rightarrow> json" where
  "media_resource k =
     JObj [(''resourceType'', JStr ''S3Object''),
           (''s3Object'', JObj [(''bucketName'', JStr ''media''), (''key'', JStr k)])]"

definition finding_event :: "json \<Rightarrow> json \<Rightarrow> dict" where
  "finding_event severity resources =
     [(''source'', JStr ''aws.macie2''),
      (''detail'', JObj [(''id'', JStr ''f-1''), (''severity'', severity),
                         (''type'', JStr ''SensitiveData:S3Object/Personal''),
                         (''resources'', resources)])]"

definition described :: "string \<Rightarrow> json" where
  "described s = JObj [(''description'', JStr s)]"

definition critical_event :: dict where
  "critical_event =
     finding_event (described ''CRITICAL'') (JList [media_resource ''reports/a.csv''])"

definition low_event :: dict where
  "low_event = finding_event (described ''LOW'') (JList [media_resource ''reports/a.csv''])"

definition other_event :: dict where
  "other_event = [(''source'', JStr ''other.tool''), (''detail'', JObj [])]"

text \<open>The severity as a plain string instead of a dictionary with a description.\<close>

definition flat_severity_event :: dict where
  "flat_severity_event =
     finding_event (JStr ''HIGH'') (JList [media_resource ''reports/a.csv''])"

text \<open>A resource given as a string after a well-formed one.\<close>

definition arn_event :: dict where
  "arn_event =
     finding_event (described ''HIGH'')
       (JList [media_resource ''reports/a.csv'', JStr ''arn:aws:s3:::media/reports/b.csv''])"

definition null_description_event :: dict where
  "null_description_event =
     finding_event (JObj [(''description'', JNull)]) (JList [media_resource ''reports/a.csv''])"

text \<open>The same finding with a severity that has no description.\<close>

definition absent_description_event :: dict where
  "absent_description_event =
     finding_event (JObj [(''score'', JNum 3)]) (JList [media_resource ''reports/a.csv''])"

text \<open>A bucket, an object without key, two objects, an object with an empty bucket name.\<close>

definition mixed_event :: dict where
  "mixed_event =
     finding_event (described ''LOW'')
       (JList [JObj [(''resourceType'', JStr ''S3Bucket''),
                     (''s3Bucket'', JObj [(''name'', JStr ''media'')])],
               JObj [(''resourceType'', JStr ''S3Object''),
                     (''s3Object'', JObj [(''bucketName'', JStr ''media'')])],
               media_resource ''a.csv'',
               JObj [(''resourceType'', JStr ''S3Object''),
                     (''s3Object'', JObj [(''bucketName'', JStr []), (''key'', JStr ''x'')])],
               media_resource ''b.csv''])"

section \<open>Properties\<close>

subsection \<open>Quarantine\<close>

text \<open>
  \<^verbatim>\<open>quarantine_object\<close> as a decision on the answers of its two requests. The second
  request is made in the history that holds the first.
\<close>

lemma quarantine_object_eq:
  "quarantine_object env b k cfg w =
     (let copy = copy_request env b k (clock env w);
          acl = acl_request env b k
      in (case fault env (w @ [UtcNow]) copy of
            Some e \<Rightarrow>
              (Inr (quarantine_failed e),
               w @ [UtcNow, copy,
                    Log ERROR (''Failed to quarantine object '' @ fstr env b @ ''/'' @ fstr env k
                               @ '': '' @ str_exn e)])
          | None \<Rightarrow>
              (case fault env (w @ [UtcNow, copy]) acl of
                 Some e \<Rightarrow>
                   (Inr (quarantine_failed e),
                    w @ [UtcNow, copy, acl,
                         Log ERROR (''Failed to quarantine object '' @ fstr env b @ ''/''
                                    @ fstr env k @ '': '' @ str_exn e)])
               | None \<Rightarrow>
                   (Inr (quarantine_succeeded (fstr env b @ ''/quarantine/'' @ fstr env k)),
                    w @ [UtcNow, copy, acl,
                         Log INFO (''Quarantined object: '' @ fstr env b @ ''/'' @ fstr env k
                                   @ '' -> '' @ fstr env b @ ''/quarantine/'' @ fstr env k)]))))"
  by (simp add: quarantine_object_def utcnow_def request_def log_def Let_def copy_request_def
        acl_request_def quarantine_failed_def quarantine_succeeded_def quarantine_prefix_def
      split: option.splits)

text \<open>The quarantine key is never the key of the original object.\<close>

lemma quarantine_key_differs: "JStr (''quarantine/'' @ fstr env k) \<noteq> k"
proof (cases k)
  case (JStr s)
  have "length (''quarantine/'' @ s) \<noteq> length s" by simp
  then have "''quarantine/'' @ s \<noteq> s" by metis
  with JStr show ?thesis by (simp add: fstr_def)
qed simp_all

lemma copy_spares_original:
  "written_object (copy_request env b k now) \<noteq> Some (b, k)"
  using quarantine_key_differs [of env k] by (simp add: copy_request_def)

lemma acl_spares_original:
  "written_object (acl_request env b k) \<noteq> Some (b, k)"
  using quarantine_key_differs [of env k] by (simp add: acl_request_def)

text \<open>
  Claim C4. For every bucket, key and configuration, \<^verbatim>\<open>quarantine_object\<close> reads the
  clock, then asks for a copy of the object into the same bucket under the key
  \<^verbatim>\<open>quarantine/\<close> followed by the original key, with server-side encryption \<^verbatim>\<open>AES256\<close>
  and with the metadata replaced (directive \<^verbatim>\<open>REPLACE\<close>) by the fixed reason, the
  timestamp just read and the original key; when the copy did not raise it sets the ACL
  of the copy to \<^verbatim>\<open>private\<close>. It makes no other request: neither request changes the
  original object, and there is none that deletes or moves. When both requests succeed
  the result is the success result with the location \<^verbatim>\<open>bucket/quarantine/key\<close>;
  otherwise it is the failed result with the message of the exception. It never raises.
\<close>

theorem quarantine_object_copies_then_restricts:
  "let copy = copy_request env bucket_name object_key (clock env w);
       acl = acl_request env bucket_name object_key
   in (\<exists>msg. quarantine_object env bucket_name object_key config w =
         (case fault env (w @ [UtcNow]) copy of
            Some e \<Rightarrow> (Inr (quarantine_failed e), w @ [UtcNow, copy, Log ERROR msg])
          | None \<Rightarrow>
              (case fault env (w @ [UtcNow, copy]) acl of
                 Some e \<Rightarrow> (Inr (quarantine_failed e), w @ [UtcNow, copy, acl, Log ERROR msg])
               | None \<Rightarrow>
                   (Inr (quarantine_succeeded
                           (fstr env bucket_name @ ''/quarantine/'' @ fstr env object_key)),
                    w @ [UtcNow, copy, acl, Log INFO msg]))))
      \<and> written_object copy \<noteq> Some (bucket_name, object_key)
      \<and> written_object acl \<noteq> Some (bucket_name, object_key)"
proof -
  have "\<exists>msg. quarantine_object env bucket_name object_key config w =
         (case fault env (w @ [UtcNow]) (copy_request env bucket_name object_key (clock env w)) of
            Some e \<Rightarrow> (Inr (quarantine_failed e),
                       w @ [UtcNow, copy_request env bucket_name object_key (clock env w),
                            Log ERROR msg])
          | None \<Rightarrow>
              (case fault env (w @ [UtcNow, copy_request env bucket_name object_key (clock env w)])
                      (acl_request env bucket_name object_key) of
                 Some e \<Rightarrow> (Inr (quarantine_failed e),
                            w @ [UtcNow, copy_request env bucket_name object_key (clock env w),
                                 acl_request env bucket_name object_key, Log ERROR msg])
               | None \<Rightarrow>
                   (Inr (quarantine_succeeded
                           (fstr env bucket_name @ ''/quarantine/'' @ fstr env object_key)),
                    w @ [UtcNow, copy_request env bucket_name object_key (clock env w),
                         acl_request env bucket_name object_key, Log INFO msg])))"
    by (simp add: quarantine_object_eq Let_def split: option.splits)
  then show ?thesis
    unfolding Let_def using copy_spares_original acl_spares_original by blast
qed

text \<open>
  The scenario of the specification (bucket \<^verbatim>\<open>media\<close>, key \<^verbatim>\<open>reports/a.csv\<close>) when
  the object store accepts everything, and when it refuses the copy.
\<close>

theorem quarantine_object_copies_then_restricts_witness:
  "quarantine_object calm (JStr ''media'') (JStr ''reports/a.csv'') [] [] =
     (Inr (JObj [(''action'', JStr ''quarantine''), (''status'', JStr ''success''),
                 (''quarantine_location'', JStr ''media/quarantine/reports/a.csv'')]),
      [UtcNow,
       CopyObject (JStr ''media'') (JStr ''reports/a.csv'') (JStr ''media'')
         ''quarantine/reports/a.csv'' ''AES256''
         [(''quarantine-reason'', JStr ''PII-detected''),
          (''quarantine-timestamp'', JStr ''2024-05-01T10:00:00''),
          (''original-key'', JStr ''reports/a.csv'')] ''REPLACE'',
       PutObjectAcl (JStr ''media'') ''quarantine/reports/a.csv'' ''private'',
       Log INFO ''Quarantined object: media/reports/a.csv -> media/quarantine/reports/a.csv''])
   \<and> quarantine_object copy_denied (JStr ''media'') (JStr ''reports/a.csv'') [] [] =
     (Inr (JObj [(''action'', JStr ''quarantine''), (''status'', JStr ''failed''),
                 (''error'', JStr ''AccessDenied'')]),
      [UtcNow,
       CopyObject (JStr ''media'') (JStr ''reports/a.csv'') (JStr ''media'')
         ''quarantine/reports/a.csv'' ''AES256''
         [(''quarantine-reason'', JStr ''PII-detected''),
          (''quarantine-timestamp'', JStr ''2024-05-01T10:00:00''),
          (''original-key'', JStr ''reports/a.csv'')] ''REPLACE'',
       Log ERROR ''Failed to quarantine object media/reports/a.csv: AccessDenied''])"
  using quarantine_object_copies_then_restricts
          [of calm "JStr ''media''" "JStr ''reports/a.csv''" "[]" "[]"]
        quarantine_object_copies_then_restricts
          [of copy_denied "JStr ''media''" "JStr ''reports/a.csv''" "[]" "[]"]
  by (simp add: quarantine_object_eq Let_def calm_def copy_denied_def sample_env_def
        copy_request_def acl_request_def fstr_def quarantine_succeeded_def quarantine_failed_def)

subsection \<open>Per-resource remediation\<close>

lemma quarantine_object_returns:
  "\<exists>q w'. quarantine_object env b k cfg w = (Inr q, w') \<and> field q ''action'' = JStr ''quarantine''"
  by (simp add: quarantine_object_eq Let_def quarantine_failed_def quarantine_succeeded_def
        dict_get_def split: option.splits)

text \<open>
  \<^verbatim>\<open>tag_object_with_pii_info\<close> as a decision on the severity and on the answer of its
  request. A severity that is not a string fails before the clock and the request.
\<close>

lemma tag_object_eq:
  "tag_object_with_pii_info env b k severity w =
     (case severity of
        JStr s \<Rightarrow>
          (let req = PutObjectTagging b k (pii_tags env s (clock env w))
           in (case fault env (w @ [UtcNow]) req of
                 Some e \<Rightarrow>
                   (Inr (tag_failed e),
                    w @ [UtcNow, req,
                         Log ERROR (''Failed to tag object '' @ fstr env b @ ''/'' @ fstr env k
                                    @ '': '' @ str_exn e)])
               | None \<Rightarrow>
                   (Inr (tag_succeeded (pii_tags env s (clock env w))),
                    w @ [UtcNow, req,
                         Log INFO (''Tagged object '' @ fstr env b @ ''/'' @ fstr env k
                                   @ '' with PII information'')])))
      | _ \<Rightarrow>
          (Inr (tag_failed (no_attribute severity ''lower'')),
           w @ [Log ERROR (''Failed to tag object '' @ fstr env b @ ''/'' @ fstr env k @ '': ''
                           @ str_exn (no_attribute severity ''lower''))]))"
  by (cases severity)
     (simp_all add: tag_object_with_pii_info_def utcnow_def request_def log_def
        Let_def pii_tags_def tag_failed_def tag_succeeded_def split: option.splits)

lemma tag_object_returns:
  "\<exists>t w'. tag_object_with_pii_info env b k severity w = (Inr t, w')
     \<and> field t ''action'' = JStr ''tag''
     \<and> field t ''status'' =
         (if tagging_fault env b k severity w = None then JStr ''success'' else JStr ''failed'')"
  by (cases severity)
     (simp_all add: tag_object_eq tagging_fault_def tag_failed_def tag_succeeded_def dict_get_def
        Let_def split: option.splits)

text \<open>
  Claim C2. For every bucket, key, severity and configuration,
  \<^verbatim>\<open>handle_pii_in_s3_object\<close> returns an outcome whose list of actions is: when the
  severity is \<^verbatim>\<open>HIGH\<close> or \<^verbatim>\<open>CRITICAL\<close>, the result of the quarantine and then the
  result of the tagging, the tagging being run in the state the quarantine left,
  whatever the quarantine's result; for any other severity, the result of the tagging
  alone. The status of the tagging is decided by the tagging attempt itself: it is
  \<^verbatim>\<open>success\<close> exactly when that attempt raised nothing.
\<close>

theorem handle_pii_records_quarantine_then_tag:
  "\<exists>t w1 w2 msg.
       tag_object_with_pii_info env bucket_name object_key severity w1 = (Inr t, w2)
     \<and> field t ''action'' = JStr ''tag''
     \<and> field t ''status'' =
         (if tagging_fault env bucket_name object_key severity w1 = None
          then JStr ''success'' else JStr ''failed'')
     \<and> (if high_or_critical severity
        then (\<exists>q. quarantine_object env bucket_name object_key config w = (Inr q, w1)
                \<and> field q ''action'' = JStr ''quarantine''
                \<and> handle_pii_in_s3_object env bucket_name object_key severity config w =
                    (Inr (outcome bucket_name object_key severity [q, t]), w2 @ [Log INFO msg]))
        else w1 = w
           \<and> handle_pii_in_s3_object env bucket_name object_key severity config w =
               (Inr (outcome bucket_name object_key severity [t]), w2 @ [Log INFO msg]))"
proof (cases "high_or_critical severity")
  case True
  obtain q w1 where q: "quarantine_object env bucket_name object_key config w = (Inr q, w1)"
      "field q ''action'' = JStr ''quarantine''"
    using quarantine_object_returns by blast
  obtain t w2 where t: "tag_object_with_pii_info env bucket_name object_key severity w1 = (Inr t, w2)"
      "field t ''action'' = JStr ''tag''"
      "field t ''status'' =
         (if tagging_fault env bucket_name object_key severity w1 = None
          then JStr ''success'' else JStr ''failed'')"
    using tag_object_returns by blast
  have "\<exists>msg. handle_pii_in_s3_object env bucket_name object_key severity config w =
          (Inr (outcome bucket_name object_key severity [q, t]), w2 @ [Log INFO msg])"
    using True q(1) t(1) by (simp add: handle_pii_in_s3_object_def outcome_def log_def)
  with True q t show ?thesis by auto
next
  case False
  obtain t w2 where t: "tag_object_with_pii_info env bucket_name object_key severity w = (Inr t, w2)"
      "field t ''action'' = JStr ''tag''"
      "field t ''status'' =
         (if tagging_fault env bucket_name object_key severity w = None
          then JStr ''success'' else JStr ''failed'')"
    using tag_object_returns by blast
  have "\<exists>msg. handle_pii_in_s3_object env bucket_name object_key severity config w =
          (Inr (outcome bucket_name object_key severity [t]), w2 @ [Log INFO msg])"
    using False t(1) by (simp add: handle_pii_in_s3_object_def outcome_def log_def)
  with False t show ?thesis by auto
qed

text \<open>
  A refused copy followed by an accepted tagging (severity \<^verbatim>\<open>HIGH\<close>), and a severity
  \<^verbatim>\<open>LOW\<close> with the tagging alone.
\<close>

theorem handle_pii_records_quarantine_then_tag_witness:
  "fst (handle_pii_in_s3_object copy_denied (JStr ''media'') (JStr ''reports/a.csv'')
          (JStr ''HIGH'') [] []) =
     Inr (JObj [(''bucket'', JStr ''media''), (''key'', JStr ''reports/a.csv''),
                (''severity'', JStr ''HIGH''),
                (''actions'',
                   JList [JObj [(''action'', JStr ''quarantine''), (''status'', JStr ''failed''),
                                (''error'', JStr ''AccessDenied'')],
                          JObj [(''action'', JStr ''tag''), (''status'', JStr ''success''),
                                (''tags_applied'',
                                   JObj [(''pii-detected'', JStr ''true''),
                                         (''pii-severity'', JStr ''high''),
                                         (''pii-detection-date'', JStr ''2024-05-01''),
                                         (''security-status'', JStr ''flagged'')])]])])
   \<and> fst (handle_pii_in_s3_object calm (JStr ''media'') (JStr ''reports/a.csv'')
            (JStr ''LOW'') [] []) =
     Inr (JObj [(''bucket'', JStr ''media''), (''key'', JStr ''reports/a.csv''),
                (''severity'', JStr ''LOW''),
                (''actions'',
                   JList [JObj [(''action'', JStr ''tag''), (''status'', JStr ''success''),
                                (''tags_applied'',
                                   JObj [(''pii-detected'', JStr ''true''),
                                         (''pii-severity'', JStr ''low''),
                                         (''pii-detection-date'', JStr ''2024-05-01''),
                                         (''security-status'', JStr ''flagged'')])]])])"
  using handle_pii_records_quarantine_then_tag
          [of copy_denied "JStr ''media''" "JStr ''reports/a.csv''" "JStr ''HIGH''" "[]" "[]"]
        handle_pii_records_quarantine_then_tag
          [of calm "JStr ''media''" "JStr ''reports/a.csv''" "JStr ''LOW''" "[]" "[]"]
  by (simp add: handle_pii_in_s3_object_def high_or_critical_def quarantine_object_eq
        tag_object_eq Let_def calm_def copy_denied_def sample_env_def copy_request_def
        acl_request_def fstr_def quarantine_succeeded_def quarantine_failed_def tag_failed_def
        tag_succeeded_def pii_tags_def ascii_lower_def char_lower_def log_def)

subsection \<open>The alert\<close>

text \<open>
  The attempt on a result that has the five keys, as \<^verbatim>\<open>process_macie_finding\<close> builds
  it: no subscript fails, and the only exception is that of the request.
\<close>

lemma alert_attempt_complete:
  "alert_attempt env (finding_result a b c d now) w =
     (let req = alert_request env (finding_result a b c d now) (clock env w)
      in (case fault env (w @ [UtcNow]) req of
            Some x \<Rightarrow> (Some x, w @ [UtcNow, req])
          | None \<Rightarrow>
              (None, w @ [UtcNow, req,
                          Log INFO (''Sent high severity alert for finding '' @ fstr env a)])))"
  by (simp add: alert_attempt_def dict_item_def alert_request_def dict_get_def utcnow_def
        request_def log_def Let_def finding_result_def split: option.splits)

lemma send_alert_complete:
  "send_high_severity_alert env (finding_result a b c d now) config w =
     (Inr (),
      w @ [UtcNow, alert_request env (finding_result a b c d now) (clock env w),
           alert_log env (finding_result a b c d now) w])"
  by (simp add: send_high_severity_alert_def alert_attempt_complete Let_def alert_log_def log_def
        split: option.splits)
     (simp add: finding_result_def dict_get_def)

lemma send_alert_returns:
  "\<exists>w'. send_high_severity_alert env result config w = (Inr (), w')"
  by (simp add: send_high_severity_alert_def split: prod.splits option.splits)

subsection \<open>The remediation engine, step by step\<close>

text \<open>
  \<^verbatim>\<open>process_macie_finding\<close> as a decision on the shape of the payload: the two
  \<^verbatim>\<open>get\<close> that can miss their method, the iteration, the loop, and the alert.
\<close>

lemma process_macie_finding_eq:
  "process_macie_finding env event config w =
     (case dict_get event ''detail'' (JObj []) of
        JObj detail \<Rightarrow>
          (case dict_get detail ''severity'' (JObj []) of
             JObj sd \<Rightarrow>
               (let finding_id = dict_get detail ''id'' JNull;
                    severity = dict_get sd ''description'' (JStr ''UNKNOWN'');
                    finding_type = dict_get detail ''type'' JNull;
                    w1 = w @ [processing_log env finding_id severity];
                    now = clock env w1
                in (case py_iter (dict_get detail ''resources'' (JList [])) of
                      Inl e \<Rightarrow> (Inl e, w1 @ [UtcNow])
                    | Inr resources \<Rightarrow>
                        (case remediate_resources env resources severity config []
                                (w1 @ [UtcNow]) of
                           (Inl e, w3) \<Rightarrow> (Inl e, w3)
                         | (Inr actions_taken, w3) \<Rightarrow>
                             (let result = finding_result finding_id severity finding_type
                                             actions_taken now
                              in (Inr result,
                                  if high_or_critical severity
                                  then w3 @ [UtcNow, alert_request env result (clock env w3),
                                             alert_log env result w3]
                                  else w3)))))
           | v \<Rightarrow> (Inl (no_attribute v ''get''), w))
      | v \<Rightarrow> (Inl (no_attribute v ''get''), w))"
proof (cases "dict_get event ''detail'' (JObj [])")
  case (JObj detail)
  note d = this
  show ?thesis
  proof (cases "dict_get detail ''severity'' (JObj [])")
    case (JObj sd)
    show ?thesis
      using d JObj
      by (simp add: process_macie_finding_def finding_severity_def Let_def utcnow_def log_def
            processing_log_def send_alert_complete [unfolded finding_result_def]
            finding_result_def
          split: sum.splits prod.splits)
  qed (simp_all add: process_macie_finding_def finding_severity_def d)
qed (simp_all add: process_macie_finding_def)

subsection \<open>The loop over the resources\<close>

text \<open>
  One remediation returns the outcome of its object, and adds to the history only
  clock reads, requests to the object store and log lines.
\<close>

lemma quarantine_object_trace:
  "\<exists>q tr. quarantine_object env b k cfg w = (Inr q, w @ tr) \<and> filter is_put_events tr = []"
  by (simp add: quarantine_object_eq Let_def copy_request_def acl_request_def
      split: option.splits)

lemma tag_object_trace:
  "\<exists>t tr. tag_object_with_pii_info env b k s w = (Inr t, w @ tr)
     \<and> filter is_put_events tr = []"
  by (cases s) (simp_all add: tag_object_eq Let_def split: option.splits)

lemma handle_pii_outcome:
  "\<exists>actions tr. handle_pii_in_s3_object env b k s cfg w = (Inr (outcome b k s actions), w @ tr)
     \<and> filter is_put_events tr = []"
proof -
  show ?thesis
  proof (cases "high_or_critical s")
    case True
    obtain q tr1 where q: "quarantine_object env b k cfg w = (Inr q, w @ tr1)"
        "filter is_put_events tr1 = []"
      using quarantine_object_trace by blast
    obtain t tr2 where t: "tag_object_with_pii_info env b k s (w @ tr1) = (Inr t, (w @ tr1) @ tr2)"
        "filter is_put_events tr2 = []"
      using tag_object_trace by blast
    have "handle_pii_in_s3_object env b k s cfg w =
            (Inr (outcome b k s [q, t]),
             w @ (tr1 @ tr2 @ [Log INFO (''Handled PII in '' @ fstr env b @ ''/'' @ fstr env k
                                         @ '' with severity '' @ fstr env s)]))"
      using True q(1) t(1) by (simp add: handle_pii_in_s3_object_def outcome_def log_def)
    moreover have "filter is_put_events
                     (tr1 @ tr2 @ [Log INFO (''Handled PII in '' @ fstr env b @ ''/''
                                   @ fstr env k @ '' with severity '' @ fstr env s)]) = []"
      using q(2) t(2) by simp
    ultimately show ?thesis by blast
  next
    case False
    obtain t tr2 where t: "tag_object_with_pii_info env b k s w = (Inr t, w @ tr2)"
        "filter is_put_events tr2 = []"
      using tag_object_trace by blast
    have "handle_pii_in_s3_object env b k s cfg w =
            (Inr (outcome b k s [t]),
             w @ (tr2 @ [Log INFO (''Handled PII in '' @ fstr env b @ ''/'' @ fstr env k
                                   @ '' with severity '' @ fstr env s)]))"
      using False t(1) by (simp add: handle_pii_in_s3_object_def outcome_def log_def)
    moreover have "filter is_put_events
                     (tr2 @ [Log INFO (''Handled PII in '' @ fstr env b @ ''/''
                             @ fstr env k @ '' with severity '' @ fstr env s)]) = []"
      using t(2) by simp
    ultimately show ?thesis by blast
  qed
qed

text \<open>
  One turn of the loop on a resource: an exception when the resource or its
  \<^verbatim>\<open>s3Object\<close> has no method \<^verbatim>\<open>get\<close>, a remediation when the resource is
  actionable, nothing otherwise.
\<close>

lemma remediate_resources_misshaped:
  "\<not> resource_shaped r \<Longrightarrow>
   \<exists>v. remediate_resources env (r # rs) s cfg acc w = (Inl (no_attribute v ''get''), w)"
  by (cases r; cases "dict_get (case r of JObj d \<Rightarrow> d | _ \<Rightarrow> []) ''s3Object'' (JObj [])")
     (auto simp add: resource_shaped_def split: if_splits)

lemma remediate_resources_skip:
  "resource_shaped r \<Longrightarrow> actionable r = None \<Longrightarrow>
   remediate_resources env (r # rs) s cfg acc w = remediate_resources env rs s cfg acc w"
  by (cases r; cases "dict_get (case r of JObj d \<Rightarrow> d | _ \<Rightarrow> []) ''s3Object'' (JObj [])")
     (auto simp add: resource_shaped_def actionable_def dict_get_def
           split: if_splits option.splits)

lemma remediate_resources_act:
  "resource_shaped r \<Longrightarrow> actionable r = Some (b, k) \<Longrightarrow>
   remediate_resources env (r # rs) s cfg acc w =
     (case handle_pii_in_s3_object env b k s cfg w of
        (Inl e, w1) \<Rightarrow> (Inl e, w1)
      | (Inr a, w1) \<Rightarrow> remediate_resources env rs s cfg (acc @ [a]) w1)"
  by (cases r; cases "dict_get (case r of JObj d \<Rightarrow> d | _ \<Rightarrow> []) ''s3Object'' (JObj [])")
     (auto simp add: resource_shaped_def actionable_def dict_get_def
           split: if_splits option.splits)

text \<open>The loop returns exactly when every resource has the shape.\<close>

lemma remediate_resources_returns_iff:
  "(\<exists>actions w'. remediate_resources env rs s cfg acc w = (Inr actions, w'))
   = list_all resource_shaped rs"
proof (induction rs arbitrary: acc w)
  case Nil
  show ?case by simp
next
  case (Cons r rs)
  show ?case
  proof (cases "resource_shaped r")
    case False
    then show ?thesis
      using remediate_resources_misshaped [of r env rs s cfg acc w]
      by (auto simp del: remediate_resources.simps)
  next
    case True
    show ?thesis
    proof (cases "actionable r")
      case None
      with True Cons.IH show ?thesis by (simp add: remediate_resources_skip del: remediate_resources.simps)
    next
      case (Some bk)
      obtain b k where bk: "bk = (b, k)" by (cases bk)
      obtain actions tr where h:
        "handle_pii_in_s3_object env b k s cfg w = (Inr (outcome b k s actions), w @ tr)"
        using handle_pii_outcome by blast
      from True Some bk h Cons.IH show ?thesis by (simp add: remediate_resources_act del: remediate_resources.simps)
    qed
  qed
qed

text \<open>
  The outcomes the loop adds are those of the actionable resources, in the order of the
  list.
\<close>

lemma outcome_target_outcome [simp]: "outcome_target (outcome b k s actions) = (b, k)"
  by (simp add: outcome_target_def outcome_def dict_get_def)

lemma remediate_resources_targets:
  "remediate_resources env rs s cfg acc w = (Inr actions, w') \<Longrightarrow>
   map outcome_target actions = map outcome_target acc @ List.map_filter actionable rs"
proof (induction rs arbitrary: acc w)
  case Nil
  then show ?case by simp
next
  case (Cons r rs)
  have shaped: "resource_shaped r"
    using Cons.prems remediate_resources_misshaped [of r env rs s cfg acc w]
    by (cases "resource_shaped r") (auto simp del: remediate_resources.simps)
  show ?case
  proof (cases "actionable r")
    case None
    with shaped Cons show ?thesis by (simp add: remediate_resources_skip del: remediate_resources.simps)
  next
    case (Some bk)
    obtain b k where bk: "bk = (b, k)" by (cases bk)
    obtain acts tr where h:
      "handle_pii_in_s3_object env b k s cfg w = (Inr (outcome b k s acts), w @ tr)"
      using handle_pii_outcome by blast
    from shaped Some bk h Cons.prems
    have "remediate_resources env rs s cfg (acc @ [outcome b k s acts]) (w @ tr) = (Inr actions, w')"
      by (simp add: remediate_resources_act del: remediate_resources.simps)
    from Cons.IH [OF this] Some bk show ?thesis by simp
  qed
qed

text \<open>The loop makes no request to the event bus, whether it returns or raises.\<close>

lemma remediate_resources_trace:
  "\<exists>tr. snd (remediate_resources env rs s cfg acc w) = w @ tr \<and> filter is_put_events tr = []"
proof (induction rs arbitrary: acc w)
  case Nil
  show ?case by simp
next
  case (Cons r rs)
  show ?case
  proof (cases "resource_shaped r")
    case False
    then show ?thesis
      using remediate_resources_misshaped [of r env rs s cfg acc w]
      by (auto simp del: remediate_resources.simps)
  next
    case True
    show ?thesis
    proof (cases "actionable r")
      case None
      with True Cons.IH show ?thesis by (simp add: remediate_resources_skip del: remediate_resources.simps)
    next
      case (Some bk)
      obtain b k where bk: "bk = (b, k)" by (cases bk)
      obtain acts tr where h:
        "handle_pii_in_s3_object env b k s cfg w = (Inr (outcome b k s acts), w @ tr)"
        "filter is_put_events tr = []"
        using handle_pii_outcome by blast
      obtain tr' where t:
        "snd (remediate_resources env rs s cfg (acc @ [outcome b k s acts]) (w @ tr)) = (w @ tr) @ tr'"
        "filter is_put_events tr' = []"
        using Cons.IH by blast
      have "snd (remediate_resources env (r # rs) s cfg acc w) = w @ (tr @ tr')"
        using True Some bk h(1) t(1) by (simp add: remediate_resources_act del: remediate_resources.simps)
      moreover have "filter is_put_events (tr @ tr') = []" using h(2) t(2) by simp
      ultimately show ?thesis by blast
    qed
  qed
qed

text \<open>
  The three ways \<^verbatim>\<open>process_macie_finding\<close> can go: a \<^verbatim>\<open>get\<close> on a value that has
  none, before any effect; resources that cannot be iterated; the loop, whose result
  decides the rest.
\<close>

lemma process_macie_finding_outcomes:
  obtains
    (no_get) v where
      "process_macie_finding env event config w = (Inl (no_attribute v ''get''), w)"
      "\<not> well_shaped event"
      "\<not> is_dict (dict_get event ''detail'' (JObj []))
       \<or> finding_severity (dict_get event ''detail'' (JObj [])) = Inl (no_attribute v ''get'')"
  | (not_iterable) finding_id severity e where
      "finding_severity (dict_get event ''detail'' (JObj [])) = Inr severity"
      "process_macie_finding env event config w =
         (Inl e, w @ [processing_log env finding_id severity, UtcNow])"
      "\<not> well_shaped event"
      "shape_error e"
  | (loop) finding_id severity finding_type resources where
      "finding_severity (dict_get event ''detail'' (JObj [])) = Inr severity"
      "event_resources event = resources"
      "well_shaped event = list_all resource_shaped resources"
      "process_macie_finding env event config w =
         (case remediate_resources env resources severity config []
                 (w @ [processing_log env finding_id severity, UtcNow]) of
            (Inl e, w3) \<Rightarrow> (Inl e, w3)
          | (Inr actions_taken, w3) \<Rightarrow>
              (Inr (finding_result finding_id severity finding_type actions_taken
                      (clock env (w @ [processing_log env finding_id severity]))),
               if high_or_critical severity
               then w3 @ [UtcNow,
                          alert_request env
                            (finding_result finding_id severity finding_type actions_taken
                               (clock env (w @ [processing_log env finding_id severity])))
                            (clock env w3),
                          alert_log env
                            (finding_result finding_id severity finding_type actions_taken
                               (clock env (w @ [processing_log env finding_id severity])))
                            w3]
               else w3))"
proof (cases "dict_get event ''detail'' (JObj [])")
  case (JObj detail)
  note d = this
  show ?thesis
  proof (cases "dict_get detail ''severity'' (JObj [])")
    case (JObj sd)
    note s = this
    show ?thesis
    proof (cases "py_iter (dict_get detail ''resources'' (JList []))")
      case (Inl e)
      have "shape_error e"
        using Inl by (cases "dict_get detail ''resources'' (JList [])") auto
      then show ?thesis
        by (intro not_iterable [of "dict_get sd ''description'' (JStr ''UNKNOWN'')" e
                                   "dict_get detail ''id'' JNull"])
           (simp_all add: process_macie_finding_eq d s Inl finding_severity_def Let_def
              well_shaped_def)
    next
      case (Inr resources)
      show ?thesis
        by (rule loop [of "dict_get sd ''description'' (JStr ''UNKNOWN'')" resources
                          "dict_get detail ''id'' JNull" "dict_get detail ''type'' JNull"])
           (simp_all add: process_macie_finding_eq d s Inr finding_severity_def Let_def
              well_shaped_def event_resources_def split: prod.splits sum.splits)
    qed
  qed (rule no_get [of "dict_get detail ''severity'' (JObj [])"];
       simp add: process_macie_finding_eq d finding_severity_def well_shaped_def)+
qed (rule no_get [of "dict_get event ''detail'' (JObj [])"];
     simp add: process_macie_finding_eq well_shaped_def)+

subsection \<open>The remediation engine returns, or not\<close>

lemma process_returns_iff:
  "(\<exists>result w'. process_macie_finding env event config w = (Inr result, w'))
   = well_shaped event"
proof (cases rule: process_macie_finding_outcomes [of env event config w])
  case (no_get v)
  then show ?thesis by simp
next
  case (not_iterable finding_id severity e)
  then show ?thesis by simp
next
  case (loop finding_id severity finding_type resources)
  have "(\<exists>result w'. process_macie_finding env event config w = (Inr result, w'))
        = (\<exists>actions w3. remediate_resources env resources severity config []
                            (w @ [processing_log env finding_id severity, UtcNow])
                          = (Inr actions, w3))"
    by (cases "remediate_resources env resources severity config []
                 (w @ [processing_log env finding_id severity, UtcNow])";
        cases "fst (remediate_resources env resources severity config []
                 (w @ [processing_log env finding_id severity, UtcNow]))")
       (simp_all add: loop(4))
  then show ?thesis by (simp add: loop(3) remediate_resources_returns_iff)
qed

subsection \<open>When the alert is sent\<close>

lemma finding_result_severity [simp]:
  "dict_get (finding_result finding_id severity finding_type actions now) ''severity'' dflt
   = severity"
  by (simp add: finding_result_def dict_get_def)

lemma finding_result_actions [simp]:
  "dict_get (finding_result finding_id severity finding_type actions now) ''actions_taken'' dflt
   = JList actions"
  by (simp add: finding_result_def dict_get_def)

lemma alert_request_is_alert [simp]:
  "is_put_events (alert_request env result now)" "\<not> is_s3_request (alert_request env result now)"
  by (simp_all add: alert_request_def)

lemma alert_log_is_log [simp]:
  "\<not> is_put_events (alert_log env result w)" "\<not> is_s3_request (alert_log env result w)"
  by (simp_all add: alert_log_def split: option.splits)

lemma processing_log_is_log [simp]:
  "\<not> is_put_events (processing_log env finding_id severity)"
  by (simp add: processing_log_def)

text \<open>
  Claim C3 (amended). The history \<^verbatim>\<open>process_macie_finding\<close> adds splits in two parts.
  The first holds every effect of the extraction and of the loop over the resources,
  and no request to the event bus. The second is empty when the function raises or the
  severity is neither \<^verbatim>\<open>HIGH\<close> nor \<^verbatim>\<open>CRITICAL\<close>; when the function returns and the
  severity is \<^verbatim>\<open>HIGH\<close> or \<^verbatim>\<open>CRITICAL\<close> it is one clock read, one request to the event
  bus carrying the result returned, and one log line. So an event on which the function
  returns gets exactly one alert if and only if its severity is \<^verbatim>\<open>HIGH\<close> or
  \<^verbatim>\<open>CRITICAL\<close>, sent after every request to the object store; an event on which it
  raises gets none.
\<close>

theorem alert_once_after_remediation:
  "\<exists>before after.
       snd (process_macie_finding env event config w) = w @ before @ after
     \<and> filter is_put_events before = []
     \<and> filter is_s3_request after = []
     \<and> (case fst (process_macie_finding env event config w) of
          Inl e \<Rightarrow> after = []
        | Inr result \<Rightarrow>
            finding_severity (dict_get event ''detail'' (JObj []))
              = Inr (dict_get result ''severity'' JNull)
          \<and> after =
              (if high_or_critical (dict_get result ''severity'' JNull)
               then [UtcNow, alert_request env result (clock env (w @ before)),
                     alert_log env result (w @ before)]
               else [])
          \<and> length (filter is_put_events (before @ after)) =
              (if high_or_critical (dict_get result ''severity'' JNull) then 1 else 0))"
proof (cases rule: process_macie_finding_outcomes [of env event config w])
  case (no_get v)
  show ?thesis
    by (rule exI [of _ "[]"], rule exI [of _ "[]"]) (simp add: no_get(1))
next
  case (not_iterable finding_id severity e)
  show ?thesis
    by (rule exI [of _ "[processing_log env finding_id severity, UtcNow]"], rule exI [of _ "[]"])
       (simp add: not_iterable(2))
next
  case (loop finding_id severity finding_type resources)
  let ?w2 = "w @ [processing_log env finding_id severity, UtcNow]"
  obtain tr where tr:
      "snd (remediate_resources env resources severity config [] ?w2) = ?w2 @ tr"
      "filter is_put_events tr = []"
    using remediate_resources_trace by blast
  let ?before = "[processing_log env finding_id severity, UtcNow] @ tr"
  show ?thesis
  proof (cases "remediate_resources env resources severity config [] ?w2")
    case (Pair out w3)
    with tr(1) have w3: "w3 = w @ ?before" by simp
    show ?thesis
    proof (cases out)
      case (Inl e)
      show ?thesis
        by (rule exI [of _ ?before], rule exI [of _ "[]"])
           (use tr(2) in \<open>simp add: loop(4) Pair Inl w3\<close>)
    next
      case (Inr actions)
      show ?thesis
      proof (cases "high_or_critical severity")
        case True
        let ?result = "finding_result finding_id severity finding_type actions
                         (clock env (w @ [processing_log env finding_id severity]))"
        show ?thesis
          by (rule exI [of _ ?before],
              rule exI [of _ "[UtcNow, alert_request env ?result (clock env (w @ ?before)),
                               alert_log env ?result (w @ ?before)]"])
             (use tr(2) True in \<open>simp add: loop(4) loop(1) Pair Inr w3\<close>)
      next
        case False
        show ?thesis
          by (rule exI [of _ ?before], rule exI [of _ "[]"])
             (use tr(2) False in \<open>simp add: loop(4) loop(1) Pair Inr w3\<close>)
      qed
    qed
  qed
qed

text \<open>Unfolding the program on a sample event, in a sample environment.\<close>

lemmas sample_defs =
  critical_event_def low_event_def other_event_def flat_severity_event_def arn_event_def
  null_description_event_def absent_description_event_def mixed_event_def finding_event_def described_def
  media_resource_def calm_def store_unreachable_def copy_denied_def bus_down_def
  sample_env_def

lemmas program_defs =
  process_macie_finding_def finding_severity_def handle_pii_in_s3_object_def
  quarantine_object_def tag_object_with_pii_info_def send_high_severity_alert_def
  alert_attempt_def high_or_critical_def dict_get_def dict_item_def utcnow_def request_def
  log_def fstr_def quarantine_prefix_def ascii_lower_def char_lower_def Let_def

text \<open>
  The scenario of the specification: severity \<^verbatim>\<open>CRITICAL\<close>, one object. The alert is
  the last request, after the three requests to the object store. With severity
  \<^verbatim>\<open>LOW\<close> there is no alert.
\<close>

theorem alert_once_after_remediation_witness:
  "snd (process_macie_finding calm critical_event [] []) =
     [Log INFO ''Processing Macie finding f-1 with severity CRITICAL'', UtcNow, UtcNow,
      CopyObject (JStr ''media'') (JStr ''reports/a.csv'') (JStr ''media'')
        ''quarantine/reports/a.csv'' ''AES256''
        [(''quarantine-reason'', JStr ''PII-detected''),
         (''quarantine-timestamp'', JStr ''2024-05-01T10:00:00''),
         (''original-key'', JStr ''reports/a.csv'')] ''REPLACE'',
      PutObjectAcl (JStr ''media'') ''quarantine/reports/a.csv'' ''private'',
      Log INFO ''Quarantined object: media/reports/a.csv -> media/quarantine/reports/a.csv'',
      UtcNow,
      PutObjectTagging (JStr ''media'') (JStr ''reports/a.csv'')
        [(''pii-detected'', ''true''), (''pii-severity'', ''critical''),
         (''pii-detection-date'', ''2024-05-01''), (''security-status'', ''flagged'')],
      Log INFO ''Tagged object media/reports/a.csv with PII information'',
      Log INFO ''Handled PII in media/reports/a.csv with severity CRITICAL'',
      UtcNow,
      PutEvents ''media-processing-pipeline.security'' ''High Severity PII Detection''
        ''<json>'' \<lparr>isoformat = ''2024-05-01T10:00:00'', strftime_ymd = ''2024-05-01''\<rparr>,
      Log INFO ''Sent high severity alert for finding f-1'']
   \<and> filter is_put_events (snd (process_macie_finding calm low_event [] [])) = []"
  using alert_once_after_remediation [of calm critical_event "[]" "[]"]
        alert_once_after_remediation [of calm low_event "[]" "[]"]
  by (simp add: sample_defs program_defs)

text \<open>
  The claim as first stated (every event of severity \<^verbatim>\<open>HIGH\<close> gets one alert) fails
  on an event whose second resource is a string: the first object is remediated (three
  requests to the object store), the loop raises on the second resource, and no alert
  is sent.
\<close>

theorem no_alert_when_remediation_raises:
  "finding_severity (dict_get arn_event ''detail'' (JObj [])) = Inr (JStr ''HIGH'')
   \<and> fst (process_macie_finding calm arn_event [] []) =
       Inl (AttributeError (quoted ''str'' @ '' object has no attribute '' @ quoted ''get''))
   \<and> length (filter is_s3_request (snd (process_macie_finding calm arn_event [] []))) = 3
   \<and> filter is_put_events (snd (process_macie_finding calm arn_event [] [])) = []"
  by (simp add: sample_defs program_defs no_attribute_def)

subsection \<open>Which resources have an outcome\<close>

text \<open>
  Claim C7. When \<^verbatim>\<open>process_macie_finding\<close> returns a result, the objects of the
  outcomes in \<^verbatim>\<open>actions_taken\<close> are the buckets and keys of the actionable resources
  of the event, one outcome for each, in the order of the resource list. A resource
  whose \<^verbatim>\<open>resourceType\<close> is not \<^verbatim>\<open>S3Object\<close>, or whose \<^verbatim>\<open>s3Object\<close> has no
  \<^verbatim>\<open>bucketName\<close> or no \<^verbatim>\<open>key\<close>, is not actionable: it has no outcome.
\<close>

theorem skipped_resources_leave_no_outcome:
  "(process_macie_finding env event config w = (Inr result, w') \<longrightarrow>
      (\<exists>actions. dict_get result ''actions_taken'' JNull = JList actions
         \<and> map outcome_target actions = List.map_filter actionable (event_resources event)))
   \<and> (field resource ''resourceType'' \<noteq> JStr ''S3Object'' \<longrightarrow> actionable resource = None)
   \<and> (map_of s3 ''bucketName'' = None \<or> map_of s3 ''key'' = None \<longrightarrow>
        actionable (JObj [(''resourceType'', JStr ''S3Object''), (''s3Object'', JObj s3)]) = None)"
proof (intro conjI impI)
  assume ret: "process_macie_finding env event config w = (Inr result, w')"
  show "\<exists>actions. dict_get result ''actions_taken'' JNull = JList actions
         \<and> map outcome_target actions = List.map_filter actionable (event_resources event)"
  proof (cases rule: process_macie_finding_outcomes [of env event config w])
    case (no_get v)
    with ret show ?thesis by simp
  next
    case (not_iterable finding_id severity e)
    with ret show ?thesis by simp
  next
    case (loop finding_id severity finding_type resources)
    let ?w2 = "w @ [processing_log env finding_id severity, UtcNow]"
    show ?thesis
    proof (cases "remediate_resources env resources severity config [] ?w2")
      case (Pair out w3)
      show ?thesis
      proof (cases out)
        case (Inl e)
        with ret loop(4) Pair show ?thesis by simp
      next
        case (Inr actions)
        have "map outcome_target actions = List.map_filter actionable resources"
          using remediate_resources_targets [of env resources severity config "[]" ?w2 actions w3]
            Pair Inr by simp
        moreover have "dict_get result ''actions_taken'' JNull = JList actions"
          using ret loop(4) Pair Inr by auto
        ultimately show ?thesis using loop(2) by simp
      qed
    qed
  qed
next
  assume "field resource ''resourceType'' \<noteq> JStr ''S3Object''"
  then show "actionable resource = None" by (simp add: actionable_def)
next
  assume "map_of s3 ''bucketName'' = None \<or> map_of s3 ''key'' = None"
  then show "actionable (JObj [(''resourceType'', JStr ''S3Object''), (''s3Object'', JObj s3)])
             = None"
    by (auto simp add: actionable_def dict_get_def)
qed

text \<open>
  An event with a bucket, an object without key, the object \<^verbatim>\<open>a.csv\<close>, an object with
  an empty bucket name and the object \<^verbatim>\<open>b.csv\<close>: two outcomes, \<^verbatim>\<open>a.csv\<close> then
  \<^verbatim>\<open>b.csv\<close>.
\<close>

theorem skipped_resources_leave_no_outcome_witness:
  "(\<exists>result w'. process_macie_finding calm mixed_event [] [] = (Inr result, w')
      \<and> map outcome_target (case dict_get result ''actions_taken'' JNull of
                               JList actions \<Rightarrow> actions | _ \<Rightarrow> [])
          = [(JStr ''media'', JStr ''a.csv''), (JStr ''media'', JStr ''b.csv'')])
   \<and> length (event_resources mixed_event) = 5
   \<and> actionable (JObj [(''resourceType'', JStr ''S3Bucket'')]) = None
   \<and> actionable (JObj [(''resourceType'', JStr ''S3Object''),
                        (''s3Object'', JObj [(''bucketName'', JStr ''media'')])]) = None"
proof -
  have "well_shaped mixed_event"
    by (simp add: well_shaped_def resource_shaped_def sample_defs dict_get_def)
  then obtain result w' where
    ret: "process_macie_finding calm mixed_event [] [] = (Inr result, w')"
    using process_returns_iff [of calm mixed_event "[]" "[]"] by blast
  have res: "List.map_filter actionable (event_resources mixed_event)
             = [(JStr ''media'', JStr ''a.csv''), (JStr ''media'', JStr ''b.csv'')]"
    by (simp add: event_resources_def actionable_def sample_defs dict_get_def)
  have len: "length (event_resources mixed_event) = 5"
    by (simp add: event_resources_def sample_defs dict_get_def)
  show ?thesis
    using skipped_resources_leave_no_outcome
            [of calm mixed_event "[]" "[]" result w' "JObj [(''resourceType'', JStr ''S3Bucket'')]"
                "[(''bucketName'', JStr ''media'')]"]
          ret res len
    by (auto simp add: dict_get_def)
qed

subsection \<open>The severity\<close>

text \<open>
  The default of line 106: on a finding without \<^verbatim>\<open>severity\<close>, or whose severity has no
  \<^verbatim>\<open>description\<close>, the extraction does not fail and gives \<^verbatim>\<open>UNKNOWN\<close>.
\<close>

lemma severity_unknown_when_absent:
  "map_of detail ''severity'' = None \<or>
   (map_of detail ''severity'' = Some (JObj sd) \<and> map_of sd ''description'' = None) \<Longrightarrow>
   finding_severity (JObj detail) = Inr (JStr ''UNKNOWN'')"
  by (auto simp add: finding_severity_def dict_get_def)

text \<open>
  Claim C8 says that the severity extracted defaults to \<^verbatim>\<open>UNKNOWN\<close> when the severity
  field or its description is absent, that the extraction never fails on a missing
  severity field, and that the severity is never null. The code keeps the default for
  an absent description (second line below) and misses it for a description that is
  null: the severity extracted is \<^verbatim>\<open>None\<close>, the result returned carries it, and the
  tagging of every object fails on \<^verbatim>\<open>severity.lower()\<close>.
\<close>

theorem severity_null_when_description_null:
  "finding_severity (dict_get null_description_event ''detail'' (JObj [])) = Inr JNull
   \<and> finding_severity (dict_get absent_description_event ''detail'' (JObj []))
       = Inr (JStr ''UNKNOWN'')
   \<and> fst (process_macie_finding calm null_description_event [] []) =
       Inr [(''finding_id'', JStr ''f-1''),
            (''severity'', JNull),
            (''type'', JStr ''SensitiveData:S3Object/Personal''),
            (''actions_taken'',
               JList [JObj [(''bucket'', JStr ''media''), (''key'', JStr ''reports/a.csv''),
                            (''severity'', JNull),
                            (''actions'',
                               JList [JObj [(''action'', JStr ''tag''),
                                            (''status'', JStr ''failed''),
                                            (''error'',
                                               JStr (quoted ''NoneType''
                                                     @ '' object has no attribute ''
                                                     @ quoted ''lower''))]])]]),
            (''timestamp'', JStr ''2024-05-01T10:00:00'')]"
  by (simp add: sample_defs program_defs no_attribute_def)

subsection \<open>A failing alert\<close>

text \<open>
  What the event bus answers changes nothing in the remediation: no request of the
  remediation is a request to the bus.
\<close>

lemma fstr_bus_answers [simp]: "fstr (bus_answers f env) v = fstr env v"
  by (cases v) (simp_all add: fstr_def bus_answers_def)

lemma clock_bus_answers [simp]: "clock (bus_answers f env) w = clock env w"
  by (simp add: bus_answers_def)

lemma fault_bus_answers [simp]:
  "\<not> is_put_events c \<Longrightarrow> fault (bus_answers f env) w c = fault env w c"
  by (simp add: bus_answers_def)

lemma pii_tags_bus_answers [simp]:
  "pii_tags (bus_answers f env) s now = pii_tags env s now"
  by (simp add: pii_tags_def bus_answers_def)

lemma copy_request_bus_answers [simp]:
  "copy_request (bus_answers f env) b k now = copy_request env b k now"
  by (simp add: copy_request_def)

lemma acl_request_bus_answers [simp]:
  "acl_request (bus_answers f env) b k = acl_request env b k"
  by (simp add: acl_request_def)

lemma copy_request_not_alert [simp]: "\<not> is_put_events (copy_request env b k now)"
  by (simp add: copy_request_def)

lemma acl_request_not_alert [simp]: "\<not> is_put_events (acl_request env b k)"
  by (simp add: acl_request_def)

lemma processing_log_bus_answers [simp]:
  "processing_log (bus_answers f env) finding_id severity = processing_log env finding_id severity"
  by (simp add: processing_log_def)

lemma quarantine_object_bus_answers [simp]:
  "quarantine_object (bus_answers f env) b k cfg w = quarantine_object env b k cfg w"
  by (simp add: quarantine_object_eq Let_def split: option.splits)

lemma tag_object_bus_answers [simp]:
  "tag_object_with_pii_info (bus_answers f env) b k s w = tag_object_with_pii_info env b k s w"
  by (cases s) (simp_all add: tag_object_eq Let_def split: option.splits)

lemma handle_pii_bus_answers [simp]:
  "handle_pii_in_s3_object (bus_answers f env) b k s cfg w =
   handle_pii_in_s3_object env b k s cfg w"
  by (simp add: handle_pii_in_s3_object_def split: prod.splits sum.splits option.splits)

lemma remediate_resources_bus_answers [simp]:
  "remediate_resources (bus_answers f env) rs s cfg acc w = remediate_resources env rs s cfg acc w"
  by (induction rs arbitrary: acc w) (simp_all split: sum.splits prod.splits)

lemma process_outcome_bus_answers:
  "fst (process_macie_finding (bus_answers f env) event config w) =
   fst (process_macie_finding env event config w)"
  by (simp add: process_macie_finding_eq Let_def split: json.splits sum.splits prod.splits)

lemma send_alert_swallows:
  "send_high_severity_alert env result config w =
     (Inr (),
      (case fst (alert_attempt env result w) of
         None \<Rightarrow> snd (alert_attempt env result w)
       | Some e \<Rightarrow>
           snd (alert_attempt env result w)
           @ [Log ERROR (''Failed to send high severity alert: '' @ str_exn e)]))"
  by (simp add: send_high_severity_alert_def log_def split: prod.splits option.splits)

text \<open>
  Claim C9. For every result and every behaviour of the services,
  \<^verbatim>\<open>send_high_severity_alert\<close> returns and never raises; when the attempt (building the
  notification from the result, or publishing it) raised an exception, the procedure
  ends with the error log line that carries the message of that exception. The outcome
  of \<^verbatim>\<open>process_macie_finding\<close> (the result it returns, or the exception it raises) is
  the same whatever the event bus answers: a failed alert changes nothing in the result
  already computed.
\<close>

theorem alert_failure_is_swallowed:
  "send_high_severity_alert env result config w =
     (Inr (),
      (case fst (alert_attempt env result w) of
         None \<Rightarrow> snd (alert_attempt env result w)
       | Some e \<Rightarrow>
           snd (alert_attempt env result w)
           @ [Log ERROR (''Failed to send high severity alert: '' @ str_exn e)]))
   \<and> fst (process_macie_finding (bus_answers f env) event config w0) =
     fst (process_macie_finding env event config w0)"
  using send_alert_swallows [of env result config w]
        process_outcome_bus_answers [of f env event config w0]
  by simp

text \<open>
  A result without its keys (the notification cannot be built) and an event bus that
  refuses the notification: both end in the error log line. The scenario of the
  specification returns the same result when the bus is down.
\<close>

theorem alert_failure_is_swallowed_witness:
  "send_high_severity_alert calm [] [] [] =
     (Inr (), [Log ERROR (''Failed to send high severity alert: '' @ quoted ''finding_id'')])
   \<and> send_high_severity_alert bus_down (finding_result JNull (JStr ''HIGH'') JNull [] (clock calm [])) [] [] =
     (Inr (),
      [UtcNow,
       PutEvents ''media-processing-pipeline.security'' ''High Severity PII Detection''
         ''<json>'' \<lparr>isoformat = ''2024-05-01T10:00:00'', strftime_ymd = ''2024-05-01''\<rparr>,
       Log ERROR ''Failed to send high severity alert: AccessDenied''])
   \<and> fst (process_macie_finding bus_down critical_event [] []) =
     fst (process_macie_finding calm critical_event [] [])"
proof -
  have down: "bus_down = bus_answers (\<lambda>w c. Some (ServiceError ''AccessDenied'')) calm"
    by (simp add: bus_down_def calm_def sample_env_def bus_answers_def fun_eq_iff)
  show ?thesis
    using alert_failure_is_swallowed
            [of calm "[]" "[]" "[]" "\<lambda>w c. Some (ServiceError ''AccessDenied'')" critical_event "[]"]
          alert_failure_is_swallowed
            [of bus_down "finding_result JNull (JStr ''HIGH'') JNull [] (clock calm [])" "[]" "[]"
                "\<lambda>w c. None" critical_event "[]"]
    unfolding down [symmetric]
    by (simp add: alert_attempt_def dict_item_def finding_result_def utcnow_def request_def
          log_def bus_down_def calm_def sample_env_def Let_def)
qed

subsection \<open>The entry point\<close>

text \<open>\<^verbatim>\<open>get_configuration\<close> as a decision on the answer of the parameter store.\<close>

lemma get_configuration_eq:
  "get_configuration env w =
     (case fault env w (config_request env) of
        Some e \<Rightarrow>
          (Inl e,
           w @ [config_request env,
                Log ERROR (''Failed to retrieve configuration: '' @ str_exn e)])
      | None \<Rightarrow>
          (let config = load_parameters (parameter_prefix env @ ''/'')
                          (parameters env w (config_request env)) []
           in (Inr config,
               w @ [config_request env,
                    Log INFO (''Retrieved '' @ fstr env (JNum (int (length config)))
                              @ '' configuration parameters'')])))"
  by (simp add: get_configuration_def config_request_def parameter_prefix_def request_def
        log_def Let_def split: option.splits)

lemma get_configuration_raises_iff:
  "(fst (get_configuration env w) = Inl e) = (fault env w (config_request env) = Some e)"
  by (simp add: get_configuration_eq Let_def split: option.splits)

lemma get_configuration_returns_iff:
  "(\<exists>config. fst (get_configuration env w) = Inr config)
   = (fault env w (config_request env) = None)"
  by (simp add: get_configuration_eq Let_def split: option.splits)

text \<open>Every effect of \<^verbatim>\<open>process_macie_finding\<close> is added after the history it starts in.\<close>

lemma process_extends:
  "\<exists>tr. snd (process_macie_finding env event config w) = w @ tr"
proof (cases rule: process_macie_finding_outcomes [of env event config w])
  case (no_get v)
  then show ?thesis by simp
next
  case (not_iterable finding_id severity e)
  then show ?thesis by simp
next
  case (loop finding_id severity finding_type resources)
  let ?w2 = "w @ [processing_log env finding_id severity, UtcNow]"
  obtain tr where tr: "snd (remediate_resources env resources severity config [] ?w2) = ?w2 @ tr"
    using remediate_resources_trace by blast
  show ?thesis
  proof (cases "remediate_resources env resources severity config [] ?w2")
    case (Pair out w3)
    with tr have "w3 = ?w2 @ tr" by simp
    with Pair show ?thesis by (cases out) (simp_all add: loop(4))
  qed
qed

text \<open>
  The handler when the parameter store raises: the same response and the same history
  for every event, whatever its source.
\<close>

lemma lambda_handler_config_failure:
  assumes "fault env (w @ [entry_log env event]) (config_request env) = Some e"
  shows "lambda_handler env event w =
           (failure_response env e
              (clock env (w @ [entry_log env event, config_request env,
                               Log ERROR (''Failed to retrieve configuration: '' @ str_exn e),
                               Log ERROR (''Error processing event: '' @ str_exn e)])),
            w @ [entry_log env event, config_request env,
                 Log ERROR (''Failed to retrieve configuration: '' @ str_exn e),
                 Log ERROR (''Error processing event: '' @ str_exn e),
                 UtcNow])"
  using assms
  by (simp add: lambda_handler_def handle_event_def get_configuration_eq entry_log_def log_def
        utcnow_def failure_response_def Let_def)

text \<open>The handler on an event of another source, when the parameter store answers.\<close>

lemma lambda_handler_other_source:
  assumes "fault env (w @ [entry_log env event]) (config_request env) = None"
      and "dict_get event ''source'' JNull \<noteq> JStr ''aws.macie2''"
  shows "\<exists>l. lambda_handler env event w =
           (success_response env unknown_source
              (clock env (w @ [entry_log env event, config_request env, Log INFO l,
                               Log WARNING (''Unexpected event source: ''
                                            @ fstr env (dict_get event ''source'' JNull))])),
            w @ [entry_log env event, config_request env, Log INFO l,
                 Log WARNING (''Unexpected event source: ''
                              @ fstr env (dict_get event ''source'' JNull)),
                 UtcNow])"
  using assms
  by (simp add: lambda_handler_def handle_event_def get_configuration_eq entry_log_def log_def
        utcnow_def success_response_def unknown_source_def Let_def)

text \<open>The configuration is requested first, for every event.\<close>

lemma lambda_handler_requests_config_first:
  "\<exists>rest. snd (lambda_handler env event w) = w @ [entry_log env event, config_request env] @ rest"
proof (cases "fault env (w @ [entry_log env event]) (config_request env)")
  case (Some e)
  then show ?thesis by (simp add: lambda_handler_config_failure)
next
  case None
  show ?thesis
  proof (cases "dict_get event ''source'' JNull = JStr ''aws.macie2''")
    case False
    with None lambda_handler_other_source [of env w event] show ?thesis by auto
  next
    case True
    let ?config = "load_parameters (parameter_prefix env @ ''/'')
                     (parameters env (w @ [entry_log env event]) (config_request env)) []"
    let ?w1 = "w @ [entry_log env event, config_request env,
                    Log INFO (''Retrieved '' @ fstr env (JNum (int (length ?config)))
                              @ '' configuration parameters'')]"
    obtain tr where tr: "snd (process_macie_finding env event ?config ?w1) = ?w1 @ tr"
      using process_extends by blast
    show ?thesis
    proof (cases "process_macie_finding env event ?config ?w1")
      case (Pair out w2)
      with tr have "w2 = ?w1 @ tr" by simp
      with Pair None True show ?thesis
        by (cases out)
           (simp_all add: lambda_handler_def handle_event_def get_configuration_eq entry_log_def
              log_def utcnow_def Let_def)
    qed
  qed
qed

text \<open>
  Claim C6. When \<^verbatim>\<open>get_configuration\<close> raises, \<^verbatim>\<open>lambda_handler\<close> returns the status
  code 500 with a body made of the fixed error \<^verbatim>\<open>Event processing failed\<close>, the
  message of the exception and a timestamp. The history it adds is the entry log line,
  the request to the parameter store, two error log lines and the clock read of the
  timestamp: \<^verbatim>\<open>process_macie_finding\<close> is not called, and there is no request to the
  object store or to the event bus.
\<close>

theorem config_failure_gives_500:
  assumes "fst (get_configuration env (w @ [entry_log env event])) = Inl e"
  shows "\<exists>now :: datetime. lambda_handler env event w =
           (\<lparr>statusCode = 500,
             body = json_dumps env
                      (JObj [(''error'', JStr ''Event processing failed''),
                             (''message'', JStr (str_exn e)),
                             (''timestamp'', JStr (isoformat now))])\<rparr>,
            w @ [entry_log env event, config_request env,
                 Log ERROR (''Failed to retrieve configuration: '' @ str_exn e),
                 Log ERROR (''Error processing event: '' @ str_exn e),
                 UtcNow])"
proof -
  have "fault env (w @ [entry_log env event]) (config_request env) = Some e"
    using assms by (simp add: get_configuration_raises_iff)
  from lambda_handler_config_failure [OF this] show ?thesis
    unfolding failure_response_def by blast
qed

theorem config_failure_gives_500_witness:
  "fst (get_configuration store_unreachable ([] @ [entry_log store_unreachable critical_event]))
     = Inl (ServiceError ''AccessDenied'')
   \<and> lambda_handler store_unreachable critical_event [] =
       (\<lparr>statusCode = 500, body = ''<json>''\<rparr>,
        [Log INFO ''Received event: <json>'',
         GetParametersByPath ''/media-processing-pipeline/dev'' True True,
         Log ERROR ''Failed to retrieve configuration: AccessDenied'',
         Log ERROR ''Error processing event: AccessDenied'',
         UtcNow])"
proof -
  have raised:
    "fst (get_configuration store_unreachable ([] @ [entry_log store_unreachable critical_event]))
       = Inl (ServiceError ''AccessDenied'')"
    by (simp add: get_configuration_eq config_request_def store_unreachable_def sample_env_def)
  show ?thesis
    using raised config_failure_gives_500 [OF raised]
    by (simp add: entry_log_def config_request_def parameter_prefix_def store_unreachable_def
          sample_env_def)
qed

text \<open>
  Claim C10. For every event, the first effect of \<^verbatim>\<open>lambda_handler\<close> after the entry
  log line is the request of the configuration: it comes before the source of the
  event is looked at. So when that request raises, an event whose source is not
  \<^verbatim>\<open>aws.macie2\<close> gets the response 500 with the message of the exception, not the
  response 200 of an unknown source.
\<close>

theorem config_fetched_before_source_check:
  "(\<exists>rest. snd (lambda_handler env event w)
             = w @ [entry_log env event, config_request env] @ rest)
   \<and> (fault env (w @ [entry_log env event]) (config_request env) = Some e
        \<and> dict_get event ''source'' JNull \<noteq> JStr ''aws.macie2''
      \<longrightarrow> (\<exists>now. fst (lambda_handler env event w) = failure_response env e now)
          \<and> statusCode (fst (lambda_handler env event w)) = 500)"
proof (intro conjI impI)
  show "\<exists>rest. snd (lambda_handler env event w)
               = w @ [entry_log env event, config_request env] @ rest"
    by (rule lambda_handler_requests_config_first)
next
  assume "fault env (w @ [entry_log env event]) (config_request env) = Some e
          \<and> dict_get event ''source'' JNull \<noteq> JStr ''aws.macie2''"
  then have f: "fault env (w @ [entry_log env event]) (config_request env) = Some e" by simp
  show "\<exists>now. fst (lambda_handler env event w) = failure_response env e now"
    unfolding lambda_handler_config_failure [OF f] by (simp del: append.simps) blast
  show "statusCode (fst (lambda_handler env event w)) = 500"
    unfolding lambda_handler_config_failure [OF f] by (simp add: failure_response_def)
qed

theorem config_fetched_before_source_check_witness:
  "fault store_unreachable ([] @ [entry_log store_unreachable other_event])
     (config_request store_unreachable) = Some (ServiceError ''AccessDenied'')
   \<and> dict_get other_event ''source'' JNull \<noteq> JStr ''aws.macie2''
   \<and> statusCode (fst (lambda_handler store_unreachable other_event [])) = 500
   \<and> take 2 (snd (lambda_handler calm other_event [])) =
       [Log INFO ''Received event: <json>'',
        GetParametersByPath ''/media-processing-pipeline/dev'' True True]"
proof -
  have a: "fault store_unreachable ([] @ [entry_log store_unreachable other_event])
             (config_request store_unreachable) = Some (ServiceError ''AccessDenied'')"
    by (simp add: config_request_def store_unreachable_def sample_env_def)
  have b: "dict_get other_event ''source'' JNull \<noteq> JStr ''aws.macie2''"
    by (simp add: other_event_def dict_get_def)
  show ?thesis
    using a b
      config_fetched_before_source_check
        [of store_unreachable other_event "[]" "ServiceError ''AccessDenied''"]
      config_fetched_before_source_check [of calm other_event "[]" "ServiceError ''AccessDenied''"]
    by (auto simp add: entry_log_def config_request_def parameter_prefix_def calm_def
          sample_env_def)
qed

text \<open>
  Claim C5 (amended). For every event whose source is not \<^verbatim>\<open>aws.macie2\<close>, when
  \<^verbatim>\<open>get_configuration\<close> returns, \<^verbatim>\<open>lambda_handler\<close> returns the status code 200 with
  the result \<^verbatim>\<open>{processed: false, reason: "Unknown event source"}\<close>. The history it
  adds is the entry log line, the request to the parameter store and its log line, the
  warning, and the clock read of the timestamp: \<^verbatim>\<open>process_macie_finding\<close> is not called.
\<close>

theorem unknown_source_gives_200:
  assumes "fst (get_configuration env (w @ [entry_log env event])) = Inr config"
      and "dict_get event ''source'' JNull \<noteq> JStr ''aws.macie2''"
  shows "\<exists>(now :: datetime) l1 l2. lambda_handler env event w =
           (\<lparr>statusCode = 200,
             body = json_dumps env
                      (JObj [(''message'', JStr ''Event processed successfully''),
                             (''result'',
                                JObj [(''processed'', JBool False),
                                      (''reason'', JStr ''Unknown event source'')]),
                             (''timestamp'', JStr (isoformat now))])\<rparr>,
            w @ [entry_log env event, config_request env, Log INFO l1, Log WARNING l2, UtcNow])"
proof -
  have "fault env (w @ [entry_log env event]) (config_request env) = None"
    using assms(1) get_configuration_returns_iff [of env "w @ [entry_log env event]"] by blast
  from lambda_handler_other_source [OF this assms(2)] show ?thesis
    unfolding success_response_def unknown_source_def by blast
qed

text \<open>The scenario of the specification: an event of source \<^verbatim>\<open>other.tool\<close>.\<close>

theorem unknown_source_gives_200_witness:
  "fst (get_configuration calm ([] @ [entry_log calm other_event])) = Inr [(''alerts/topic'', ''pii'')]
   \<and> dict_get other_event ''source'' JNull \<noteq> JStr ''aws.macie2''
   \<and> lambda_handler calm other_event [] =
       (\<lparr>statusCode = 200, body = ''<json>''\<rparr>,
        [Log INFO ''Received event: <json>'',
         GetParametersByPath ''/media-processing-pipeline/dev'' True True,
         Log INFO ''Retrieved <repr> configuration parameters'',
         Log WARNING ''Unexpected event source: other.tool'',
         UtcNow])"
proof -
  have a: "fst (get_configuration calm ([] @ [entry_log calm other_event]))
             = Inr [(''alerts/topic'', ''pii'')]"
    by (simp add: get_configuration_eq config_request_def parameter_prefix_def calm_def
          sample_env_def str_remove_def)
  have b: "dict_get other_event ''source'' JNull \<noteq> JStr ''aws.macie2''"
    by (simp add: other_event_def dict_get_def)
  show ?thesis
    using a b unknown_source_gives_200 [OF a b]
    by (simp add: lambda_handler_def handle_event_def get_configuration_eq entry_log_def
          config_request_def parameter_prefix_def calm_def sample_env_def str_remove_def
          log_def utcnow_def fstr_def other_event_def dict_get_def Let_def)
qed

text \<open>
  The claim as first stated (every event of another source gets the response 200) fails
  when the parameter store is unreachable: the configuration is requested before the
  source is looked at, and the exception gives the response 500.
\<close>

theorem unknown_source_gives_500_when_store_unreachable:
  "dict_get other_event ''source'' JNull = JStr ''other.tool''
   \<and> lambda_handler store_unreachable other_event [] =
       (\<lparr>statusCode = 500, body = ''<json>''\<rparr>,
        [Log INFO ''Received event: <json>'',
         GetParametersByPath ''/media-processing-pipeline/dev'' True True,
         Log ERROR ''Failed to retrieve configuration: AccessDenied'',
         Log ERROR ''Error processing event: AccessDenied'',
         UtcNow])"
  by (simp add: lambda_handler_def handle_event_def get_configuration_def request_def
        store_unreachable_def sample_env_def log_def utcnow_def other_event_def dict_get_def
        Let_def)

subsection \<open>Failures captured, failures raised\<close>




text \<open>What the loop and the engine raise is the missing method or the failed iteration.\<close>

lemma no_attribute_shape_error [simp]: "shape_error (no_attribute v attr)"
  by (simp add: no_attribute_def)







end
